theory Spec2Isabelle
  imports Main
begin

section \<open>Data model (types.ts)\<close>

text \<open>
  The types of \<^verbatim>\<open>types.ts\<close>. A TypeScript interface is a record, a union of
  string literals is a datatype, an optional field is an \<open>option\<close>, a
  \<^verbatim>\<open>Record<string, T>\<close> is a map. Field names that clash with a constant
  of HOL or with a keyword carry a suffix.
\<close>

datatype Level = A1 | A2 | B1 | B2

datatype ContentSectionType = Lesson | Practice

record TopicProgress =
  completedVocabulary :: "string list"
  completedSections :: "ContentSectionType list"

type_synonym Progress = "string \<rightharpoonup> TopicProgress"

record ExamResult =
  date :: string
  score :: nat
  total_r :: nat

record User =
  name :: string
  level :: Level
  avatar :: "string option"
  progress :: Progress
  examHistory :: "ExamResult list option"

record Topic =
  id_t :: string
  title :: string
  emoji :: string

record QuizQuestion =
  question :: string
  options :: "string list"
  correctAnswer :: string
  explanation :: "string option"

record TaskItem =
  instruction :: string
  prompt :: string
  suggestedAnswer :: string

section \<open>Topic view: progress handlers (TopicView)\<close>

text \<open>
  \<^verbatim>\<open>const progress = userProgress || { completedVocabulary: [], completedSections: [] }\<close>:
  the progress a render of the topic view works with, from the prop it was given.
\<close>

definition empty_progress :: TopicProgress where
  "empty_progress = \<lparr>completedVocabulary = [], completedSections = []\<rparr>"

definition progress_of :: "TopicProgress option \<Rightarrow> TopicProgress" where
  "progress_of userProgress = (case userProgress of None \<Rightarrow> empty_progress | Some p \<Rightarrow> p)"

text \<open>
  \<^verbatim>\<open>Partial<TopicProgress>\<close>: each field present or absent; the object spread
  \<^verbatim>\<open>{ ...progress, ...updates }\<close> of the view's \<^verbatim>\<open>handleProgressUpdate\<close>
  takes a field from \<open>updates\<close> where it is present and from \<open>progress\<close> otherwise.
\<close>

record PartialTopicProgress =
  upd_completedVocabulary :: "string list option"
  upd_completedSections :: "ContentSectionType list option"

definition spread_progress :: "TopicProgress \<Rightarrow> PartialTopicProgress \<Rightarrow> TopicProgress" where
  "spread_progress p u =
     \<lparr>completedVocabulary =
        (case upd_completedVocabulary u of None \<Rightarrow> completedVocabulary p | Some v \<Rightarrow> v),
      completedSections =
        (case upd_completedSections u of None \<Rightarrow> completedSections p | Some s \<Rightarrow> s)\<rparr>"

text \<open>
  \<^verbatim>\<open>handleVocabToggle\<close>: \<^verbatim>\<open>completed.includes(w) ? completed.filter(word => word !== w)
  : [...completed, w]\<close>, the new array that is handed to \<^verbatim>\<open>handleProgressUpdate\<close>.
\<close>

definition toggled_vocabulary :: "string \<Rightarrow> string list \<Rightarrow> string list" where
  "toggled_vocabulary targetWord completed =
     (if targetWord \<in> set completed
      then filter (\<lambda>word. word \<noteq> targetWord) completed
      else completed @ [targetWord])"

definition handleVocabToggle :: "TopicProgress \<Rightarrow> string \<Rightarrow> TopicProgress" where
  "handleVocabToggle p targetWord =
     spread_progress p
       \<lparr>upd_completedVocabulary = Some (toggled_vocabulary targetWord (completedVocabulary p)),
        upd_completedSections = None\<rparr>"

section \<open>The shell (App.tsx)\<close>

text \<open>
  The accounts of \<^verbatim>\<open>localStorage\<close> (the item \<^verbatim>\<open>english-learner-accounts\<close>,
  a JSON object from user name to \<^verbatim>\<open>{ password, data }\<close>) and the \<^verbatim>\<open>user\<close>
  state of the \<^verbatim>\<open>App\<close> component. An absent item reads as the empty object.
\<close>

record Account =
  password :: string
  data :: User

type_synonym Accounts = "string \<rightharpoonup> Account"

record App =
  user :: "User option"
  accounts :: Accounts

text \<open>
  What a handler takes from its environment: the clock (\<^verbatim>\<open>new Date().toISOString()\<close>)
  and whether \<^verbatim>\<open>localStorage.setItem\<close> throws (a full or disabled storage), which
  \<^verbatim>\<open>persistUserUpdate\<close> catches and logs.
\<close>

record Env =
  now :: string
  setItem_throws :: bool

definition persistUserUpdate :: "Env \<Rightarrow> User \<Rightarrow> Accounts \<Rightarrow> Accounts" where
  "persistUserUpdate env updatedUser accts =
     (case accts (name updatedUser) of
        None \<Rightarrow> accts
      | Some account \<Rightarrow>
          if setItem_throws env then accts
          else accts(name updatedUser \<mapsto> account\<lparr>data := updatedUser\<rparr>))"

text \<open>
  The handlers of \<^verbatim>\<open>App\<close> are closures over the \<^verbatim>\<open>user\<close> of the render that
  created them. The first argument after the environment is that \<^verbatim>\<open>user\<close>: for a
  handler called from the current render it is \<open>user app\<close>; for a handler that an
  asynchronous continuation kept, it is the \<^verbatim>\<open>user\<close> of the render the continuation
  started in. \<^verbatim>\<open>setUser(updatedUser)\<close> replaces the state whatever it holds by then.
\<close>

definition handleLevelChange :: "Env \<Rightarrow> User option \<Rightarrow> Level \<Rightarrow> App \<Rightarrow> App" where
  "handleLevelChange env closure_user newLevel app =
     (case closure_user of
        None \<Rightarrow> app
      | Some u \<Rightarrow>
          let updatedUser = u\<lparr>level := newLevel\<rparr>
          in \<lparr>user = Some updatedUser,
              accounts = persistUserUpdate env updatedUser (accounts app)\<rparr>)"

definition handleProgressUpdate ::
  "Env \<Rightarrow> User option \<Rightarrow> string \<Rightarrow> TopicProgress \<Rightarrow> App \<Rightarrow> App" where
  "handleProgressUpdate env closure_user topicId updatedProgress app =
     (case closure_user of
        None \<Rightarrow> app
      | Some u \<Rightarrow>
          let updatedUser = u\<lparr>progress := (progress u)(topicId \<mapsto> updatedProgress)\<rparr>
          in \<lparr>user = Some updatedUser,
              accounts = persistUserUpdate env updatedUser (accounts app)\<rparr>)"

text \<open>\<^verbatim>\<open>user.examHistory || []\<close>\<close>

definition exam_history :: "User \<Rightarrow> ExamResult list" where
  "exam_history u = (case examHistory u of None \<Rightarrow> [] | Some h \<Rightarrow> h)"

definition handleSaveExamResult :: "Env \<Rightarrow> User option \<Rightarrow> nat \<times> nat \<Rightarrow> App \<Rightarrow> App" where
  "handleSaveExamResult env closure_user result app =
     (case closure_user of
        None \<Rightarrow> app
      | Some u \<Rightarrow>
          let newResult = \<lparr>date = now env, score = fst result, total_r = snd result\<rparr>;
              updatedUser = u\<lparr>examHistory := Some (exam_history u @ [newResult])\<rparr>
          in \<lparr>user = Some updatedUser,
              accounts = persistUserUpdate env updatedUser (accounts app)\<rparr>)"

text \<open>
  \<^verbatim>\<open>handleLogin\<close>: the account's \<^verbatim>\<open>data\<close> becomes the \<^verbatim>\<open>user\<close>. The password
  check (\<^verbatim>\<open>atob(account.password) !== pass\<close>) takes the decoder as a parameter.
\<close>

datatype error = UserNotFound | IncorrectPassword | GenerationFailed string | TypeError

definition handleLogin ::
  "(string \<Rightarrow> string) \<Rightarrow> string \<Rightarrow> string \<Rightarrow> App \<Rightarrow> error + App" where
  "handleLogin atob name' pass app =
     (case accounts app name' of
        None \<Rightarrow> Inl UserNotFound
      | Some account \<Rightarrow>
          if atob (password account) \<noteq> pass then Inl IncorrectPassword
          else Inr (app\<lparr>user := Some (data account)\<rparr>))"

text \<open>
  The progress the shell hands to the topic view for a topic:
  \<^verbatim>\<open>userProgress={user.progress[selectedTopic.id]}\<close>, read by the view through
  \<^verbatim>\<open>userProgress || { ... }\<close>.
\<close>

definition userProgress :: "User option \<Rightarrow> string \<Rightarrow> TopicProgress option" where
  "userProgress closure_user topicId =
     (case closure_user of None \<Rightarrow> None | Some u \<Rightarrow> progress u topicId)"

section \<open>The content service (services/geminiService)\<close>

text \<open>
  The service keeps generated content in \<^verbatim>\<open>sessionStorage\<close>, a map from key to
  string, and calls the remote generator (\<^verbatim>\<open>ai.models.generateContent\<close>). The number
  of generator calls is recorded in the state so that theorems can speak about it.
\<close>

record Service =
  sessionStorage :: "string \<rightharpoonup> string"
  generator_calls :: nat

text \<open>
  What one call of a service function meets: whether \<^verbatim>\<open>sessionStorage.getItem\<close> and
  \<^verbatim>\<open>sessionStorage.setItem\<close> throw (each is inside its own \<^verbatim>\<open>try\<close>/\<^verbatim>\<open>catch\<close>
  that logs and goes on), and what the generator answers if it is called: the content
  parsed from its reply, or \<open>None\<close> when the request or \<^verbatim>\<open>JSON.parse\<close> of the reply
  throws.
\<close>

record 'c Call =
  getItem_throws :: bool
  storage_full :: bool
  response :: "'c option"

definition level_string :: "Level \<Rightarrow> string" where
  "level_string l = (case l of A1 \<Rightarrow> ''A1'' | A2 \<Rightarrow> ''A2'' | B1 \<Rightarrow> ''B1'' | B2 \<Rightarrow> ''B2'')"

text \<open>
  \<^verbatim>\<open>`lesson-${level}-${topic.id}`\<close> and \<^verbatim>\<open>`comprehensive-practice-${level}-${topic.id}`\<close>
\<close>

definition lesson_key :: "Level \<Rightarrow> Topic \<Rightarrow> string" where
  "lesson_key l t = ''lesson-'' @ level_string l @ ''-'' @ id_t t"

definition practice_key :: "Level \<Rightarrow> Topic \<Rightarrow> string" where
  "practice_key l t = ''comprehensive-practice-'' @ level_string l @ ''-'' @ id_t t"

text \<open>
  The cache lookup at the head of both functions:
  \<^verbatim>\<open>try { const cachedData = sessionStorage.getItem(cacheKey);
        if (cachedData) { return JSON.parse(cachedData); } } catch (e) { ... }\<close>.
  The empty string is falsy; a \<^verbatim>\<open>JSON.parse\<close> that throws (\<open>parse\<close> gives \<open>None\<close>)
  is caught like a \<^verbatim>\<open>getItem\<close> that throws, and the function goes on to the generator.
  \<^verbatim>\<open>JSON.stringify\<close> and \<^verbatim>\<open>JSON.parse\<close> belong to the platform and are parameters.
\<close>

definition cache_lookup ::
  "(string \<Rightarrow> 'c option) \<Rightarrow> string \<Rightarrow> 'c Call \<Rightarrow> Service \<Rightarrow> 'c option" where
  "cache_lookup parse cacheKey call s =
     (if getItem_throws call then None
      else case sessionStorage s cacheKey of
             None \<Rightarrow> None
           | Some cachedData \<Rightarrow> if cachedData = [] then None else parse cachedData)"

text \<open>
  The rest of both functions: the generator call, the write to the cache inside its own
  \<^verbatim>\<open>try\<close>/\<^verbatim>\<open>catch\<close>, and the one error every failure of the call is turned into.
\<close>

definition generate_and_cache ::
  "('c \<Rightarrow> string) \<Rightarrow> string \<Rightarrow> string \<Rightarrow> 'c Call \<Rightarrow> Service \<Rightarrow> (error + 'c) \<times> Service" where
  "generate_and_cache stringify cacheKey message call s =
     (let s1 = s\<lparr>generator_calls := generator_calls s + 1\<rparr>
      in case response call of
           None \<Rightarrow> (Inl (GenerationFailed message), s1)
         | Some content \<Rightarrow>
             (Inr content,
              if storage_full call then s1
              else s1\<lparr>sessionStorage := (sessionStorage s1)(cacheKey \<mapsto> stringify content)\<rparr>))"

definition generateLessonContent ::
  "('c \<Rightarrow> string) \<Rightarrow> (string \<Rightarrow> 'c option) \<Rightarrow> Level \<Rightarrow> Topic \<Rightarrow> 'c Call \<Rightarrow> Service
     \<Rightarrow> (error + 'c) \<times> Service" where
  "generateLessonContent stringify parse l t call s =
     (case cache_lookup parse (lesson_key l t) call s of
        Some cached \<Rightarrow> (Inr cached, s)
      | None \<Rightarrow>
          generate_and_cache stringify (lesson_key l t)
            ''Failed to generate the lesson. Please try again.'' call s)"

definition generateComprehensivePractice ::
  "('c \<Rightarrow> string) \<Rightarrow> (string \<Rightarrow> 'c option) \<Rightarrow> Level \<Rightarrow> Topic \<Rightarrow> 'c Call \<Rightarrow> Service
     \<Rightarrow> (error + 'c) \<times> Service" where
  "generateComprehensivePractice stringify parse l t call s =
     (case cache_lookup parse (practice_key l t) call s of
        Some cached \<Rightarrow> (Inr cached, s)
      | None \<Rightarrow>
          generate_and_cache stringify (practice_key l t)
            ''Failed to generate practice session. Please try again.'' call s)"

text \<open>
  \<^verbatim>\<open>generateExam\<close> has no cache: it calls the generator and returns
  \<^verbatim>\<open>parsedContent.quiz as QuizQuestion[]\<close>, a cast, as it came. The reply is the list the
  \<^verbatim>\<open>quiz\<close> field of the parsed reply holds, or \<open>None\<close> when the request or the parse throws.
\<close>

definition generateExam ::
  "QuizQuestion list option \<Rightarrow> Service \<Rightarrow> (error + QuizQuestion list) \<times> Service" where
  "generateExam reply s =
     (let s1 = s\<lparr>generator_calls := generator_calls s + 1\<rparr>
      in case reply of
           None \<Rightarrow> (Inl (GenerationFailed ''Failed to generate the exam. Please try again.''), s1)
         | Some quiz \<Rightarrow> (Inr quiz, s1))"

section \<open>The exam view (ExamView)\<close>

text \<open>
  An element of the \<^verbatim>\<open>answers\<close> array, of type \<^verbatim>\<open>(string | null)[]\<close>: \<^verbatim>\<open>null\<close>
  (unanswered), a chosen option, or a hole, the slot a JavaScript array has where an
  assignment beyond its end skipped an index (\<^verbatim>\<open>reduce\<close> does not visit holes).
\<close>

datatype slot = Hole | Null | Chosen string

record ExamView =
  questions :: "QuizQuestion list option"
  isLoading :: bool
  error_e :: "string option"
  examStarted :: bool
  examFinished :: bool
  timeLeft :: int
  currentQuestionIndex :: nat
  answers :: "slot list"

definition EXAM_DURATION :: int where
  "EXAM_DURATION = 30 * 60"

text \<open>The state \<^verbatim>\<open>useState\<close> gives the component when it is created.\<close>

definition initial_exam :: ExamView where
  "initial_exam =
     \<lparr>questions = None, isLoading = True, error_e = None, examStarted = False,
      examFinished = False, timeLeft = EXAM_DURATION, currentQuestionIndex = 0, answers = []\<rparr>"

text \<open>
  The \<^verbatim>\<open>fetchExam\<close> effect, from the result of \<^verbatim>\<open>generateExam\<close> on:
  \<^verbatim>\<open>setQuestions(examQuestions); setAnswers(new Array(examQuestions.length).fill(null))\<close>,
  or \<^verbatim>\<open>setError(err.message)\<close>; \<^verbatim>\<open>setIsLoading(false)\<close> in both cases.
\<close>

definition error_message :: "error \<Rightarrow> string" where
  "error_message e = (case e of GenerationFailed m \<Rightarrow> m | _ \<Rightarrow> [])"

definition fetchExam_settled :: "error + QuizQuestion list \<Rightarrow> ExamView \<Rightarrow> ExamView" where
  "fetchExam_settled result v =
     (case result of
        Inr examQuestions \<Rightarrow>
          v\<lparr>questions := Some examQuestions,
            answers := replicate (length examQuestions) Null,
            isLoading := False\<rparr>
      | Inl err \<Rightarrow> v\<lparr>error_e := Some (error_message err), isLoading := False\<rparr>)"

text \<open>
  \<^verbatim>\<open>answers.reduce((score, answer, index) => answer === questions[index].correctAnswer
  ? score + 1 : score, 0)\<close>. Reading \<^verbatim>\<open>questions[index]\<close> beyond the questions gives
  \<^verbatim>\<open>undefined\<close>, and \<^verbatim>\<open>.correctAnswer\<close> of it throws a TypeError.
\<close>

fun reduce_score :: "QuizQuestion list \<Rightarrow> nat \<Rightarrow> slot list \<Rightarrow> nat \<Rightarrow> error + nat" where
  "reduce_score qs index [] sc = Inr sc"
| "reduce_score qs index (Hole # rest) sc = reduce_score qs (Suc index) rest sc"
| "reduce_score qs index (answer # rest) sc =
     (if index < length qs
      then reduce_score qs (Suc index) rest
             (if answer = Chosen (correctAnswer (qs ! index)) then sc + 1 else sc)
      else Inl TypeError)"

definition calculateScore :: "QuizQuestion list option \<Rightarrow> slot list \<Rightarrow> error + nat" where
  "calculateScore qs_opt ans =
     (case qs_opt of None \<Rightarrow> Inr 0 | Some qs \<Rightarrow> reduce_score qs 0 ans 0)"

text \<open>
  \<^verbatim>\<open>newAnswers[currentQuestionIndex] = option\<close> on a copy of the array: an index inside
  the array overwrites the slot, an index beyond its end extends the array with holes.
\<close>

definition array_set :: "slot list \<Rightarrow> nat \<Rightarrow> slot \<Rightarrow> slot list" where
  "array_set xs i v =
     (if i < length xs then xs[i := v]
      else xs @ replicate (i - length xs) Hole @ [v])"

text \<open>
  The handlers are closures of the render that created them. Each takes the state \<open>c\<close>
  of that render, which it reads, and the latest state \<open>v\<close>, to which its updates are
  applied. \<^verbatim>\<open>setAnswers(newAnswers)\<close> stores a copy of the array of the render, with
  the slot of the render's index overwritten; \<^verbatim>\<open>setCurrentQuestionIndex(prev => prev + 1)\<close>
  updates the latest index, after a test of the render's.
\<close>

definition handleAnswerSelect :: "string \<Rightarrow> ExamView \<Rightarrow> ExamView \<Rightarrow> ExamView" where
  "handleAnswerSelect option c v =
     v\<lparr>answers := array_set (answers c) (currentQuestionIndex c) (Chosen option)\<rparr>"

text \<open>
  \<^verbatim>\<open>currentQuestionIndex < questions.length - 1\<close> is written with \<open>Suc\<close>, since the
  subtraction of JavaScript gives \<open>-1\<close> for no question where that of \<open>nat\<close> gives \<open>0\<close>.
\<close>

definition handleNext :: "ExamView \<Rightarrow> ExamView \<Rightarrow> ExamView" where
  "handleNext c v =
     (case questions c of
        None \<Rightarrow> v
      | Some qs \<Rightarrow>
          if Suc (currentQuestionIndex c) < length qs
          then v\<lparr>currentQuestionIndex := currentQuestionIndex v + 1\<rparr> else v)"

definition handlePrev :: "ExamView \<Rightarrow> ExamView \<Rightarrow> ExamView" where
  "handlePrev c v =
     (if currentQuestionIndex c > 0
      then v\<lparr>currentQuestionIndex := currentQuestionIndex v - 1\<rparr> else v)"

text \<open>
  \<^verbatim>\<open>finishExam\<close>, a closure of the render \<open>c\<close> of the view and the shell:
  \<^verbatim>\<open>setExamFinished(true); setExamStarted(false)\<close> on the latest state; then, if the
  render had questions, the score of the render's answers and the number of its
  questions go to \<^verbatim>\<open>onSaveResult\<close>, which is the \<^verbatim>\<open>handleSaveExamResult\<close> of that
  render of the shell and extends the \<^verbatim>\<open>user\<close> of that render. If
  \<^verbatim>\<open>calculateScore\<close> throws, the flags are set and nothing is saved.
\<close>

definition finishExam :: "Env \<Rightarrow> ExamView \<times> App \<Rightarrow> ExamView \<times> App \<Rightarrow> ExamView \<times> App" where
  "finishExam env c st =
     (let v = fst st; app = snd st;
          v' = v\<lparr>examFinished := True, examStarted := False\<rparr>
      in case questions (fst c) of
           None \<Rightarrow> (v', app)
         | Some qs \<Rightarrow>
             (case calculateScore (questions (fst c)) (answers (fst c)) of
                Inl err \<Rightarrow> (v', app)
              | Inr sc \<Rightarrow> (v', handleSaveExamResult env (user (snd c)) (sc, length qs) app)))"

section \<open>The exam view as a transition system\<close>

text \<open>
  What the component renders, in the order of its \<^verbatim>\<open>return\<close> statements. A string is
  truthy when it is not empty.
\<close>

definition truthy :: "string option \<Rightarrow> bool" where
  "truthy x = (case x of None \<Rightarrow> False | Some s \<Rightarrow> s \<noteq> [])"

datatype ExamScreen =
  Spinner | ErrorText | NoQuestions | StartScreen | FinishedScreen | QuestionScreen

definition exam_screen :: "ExamView \<Rightarrow> ExamScreen" where
  "exam_screen v =
     (if isLoading v then Spinner
      else if truthy (error_e v) then ErrorText
      else if questions v = None then NoQuestions
      else if \<not> examStarted v then StartScreen
      else if examFinished v then FinishedScreen
      else QuestionScreen)"

text \<open>
  The question screen reads \<^verbatim>\<open>questions[currentQuestionIndex].question\<close>; its buttons
  exist when that question exists.
\<close>

definition current_question :: "ExamView \<Rightarrow> QuizQuestion option" where
  "current_question v =
     (case questions v of
        None \<Rightarrow> None
      | Some qs \<Rightarrow>
          if exam_screen v = QuestionScreen \<and> currentQuestionIndex v < length qs
          then Some (qs ! currentQuestionIndex v) else None)"

definition is_last_question :: "ExamView \<Rightarrow> bool" where
  "is_last_question v =
     (case questions v of None \<Rightarrow> False | Some qs \<Rightarrow> Suc (currentQuestionIndex v) = length qs)"

text \<open>
  The render throws where it reads a property of \<^verbatim>\<open>undefined\<close>: on the question
  screen \<^verbatim>\<open>currentQuestion.question\<close> when there is no question at the index (an empty
  question list, for one), on the finished screen when \<^verbatim>\<open>calculateScore()\<close> throws.
  Nothing catches it, and React unmounts the application.
\<close>

definition render_throws :: "ExamView \<Rightarrow> bool" where
  "render_throws v =
     (case questions v of
        None \<Rightarrow> False
      | Some qs \<Rightarrow>
          (exam_screen v = QuestionScreen \<and> \<not> currentQuestionIndex v < length qs) \<or>
          (exam_screen v = FinishedScreen \<and>
             (case calculateScore (questions v) (answers v) of Inl err \<Rightarrow> True | Inr sc \<Rightarrow> False)))"

text \<open>
  The mounted component, with what React keeps of it. \<open>rendered\<close> is the state of the
  view and the shell at the last commit: the buttons on the screen, their handlers and
  the effect of that commit read this state. \<open>latest\<close> is the state with every update
  made since applied. \<open>effect_pending\<close>: the timer effect of the last commit has not
  run yet (React runs passive effects after the commit, not with it). \<open>render_due\<close>:
  a click has changed the state, and React renders before anything else runs.
  \<open>interval\<close>: the interval the timer effect has set is running.
\<close>

record ExamState =
  rendered :: "ExamView \<times> App"
  latest :: "ExamView \<times> App"
  effect_pending :: bool
  render_due :: bool
  interval :: bool
  unmounted :: bool

definition mount :: "ExamView \<times> App \<Rightarrow> ExamState" where
  "mount st =
     \<lparr>rendered = st, latest = st, effect_pending = True, render_due = False,
      interval = False, unmounted = False\<rparr>"

text \<open>
  The events of the component: the one \<^verbatim>\<open>generateExam\<close> call of its creation settles;
  a button is clicked; the interval fires; the pending timer effect runs; React renders;
  the user leaves the exam (Back, which unmounts the component).
\<close>

datatype ExamEvent =
    FetchSettled "error + QuizQuestion list"
  | ClickStart
  | ClickOption string
  | ClickNext
  | ClickPrev
  | ClickFinish
  | Tick
  | TimerEffect
  | Render
  | Leave

text \<open>
  A click runs the handler of the button, if the button is on the screen of the last
  commit: the handler is the closure of that commit.
\<close>

fun exam_handle ::
  "Env \<Rightarrow> ExamEvent \<Rightarrow> ExamView \<times> App \<Rightarrow> ExamView \<times> App \<Rightarrow> ExamView \<times> App" where
  "exam_handle env ClickStart c (v, app) =
     (if exam_screen (fst c) = StartScreen then (v\<lparr>examStarted := True\<rparr>, app) else (v, app))"
| "exam_handle env (ClickOption option) c (v, app) =
     (case current_question (fst c) of
        None \<Rightarrow> (v, app)
      | Some q \<Rightarrow>
          if option \<in> set (options q) then (handleAnswerSelect option (fst c) v, app)
          else (v, app))"
| "exam_handle env ClickNext c (v, app) =
     (if current_question (fst c) \<noteq> None \<and> \<not> is_last_question (fst c)
      then (handleNext (fst c) v, app) else (v, app))"
| "exam_handle env ClickPrev c (v, app) =
     (if current_question (fst c) \<noteq> None \<and> currentQuestionIndex (fst c) \<noteq> 0
      then (handlePrev (fst c) v, app) else (v, app))"
| "exam_handle env ClickFinish c (v, app) =
     (if current_question (fst c) \<noteq> None \<and> is_last_question (fst c)
      then finishExam env c (v, app) else (v, app))"
| "exam_handle env ev c (v, app) = (v, app)"

text \<open>
  The timer effect of the last commit, with the cleanup of the one before it (which
  clears the interval):
  \<^verbatim>\<open>if (!examStarted || examFinished) return; if (timeLeft <= 0) { finishExam(); return; }
  const timerId = setInterval(...)\<close>. The effect and its \<^verbatim>\<open>finishExam\<close> are closures
  of the commit. The effect is taken to run after every commit; where React skips it
  because its dependencies are unchanged, it would find the three values the run before
  it found and set the same interval again.
\<close>

definition timer_effect :: "Env \<Rightarrow> ExamState \<Rightarrow> ExamState" where
  "timer_effect env s =
     (let c = rendered s; s0 = s\<lparr>effect_pending := False, interval := False\<rparr>
      in if \<not> examStarted (fst c) \<or> examFinished (fst c) then s0
         else if timeLeft (fst c) \<le> 0 then s0\<lparr>latest := finishExam env c (latest s)\<rparr>
         else s0\<lparr>interval := True\<rparr>)"

definition flush_effect :: "Env \<Rightarrow> ExamState \<Rightarrow> ExamState" where
  "flush_effect env s = (if effect_pending s then timer_effect env s else s)"

text \<open>
  A render: React first runs the effect that is still pending, then renders the latest
  state and commits it, unless the render throws.
\<close>

definition commit :: "Env \<Rightarrow> ExamState \<Rightarrow> ExamState" where
  "commit env s =
     (let s1 = flush_effect env s
      in if render_throws (fst (latest s1))
         then s1\<lparr>unmounted := True, render_due := False, effect_pending := False,
                 interval := False\<rparr>
         else s1\<lparr>rendered := latest s1, render_due := False, effect_pending := True\<rparr>)"

text \<open>
  One event. Nothing happens to an unmounted component, and while the render after a
  click is due only that render happens. The response of the generator and the firing
  of the interval update the latest state (\<^verbatim>\<open>setTimeLeft(prev => prev - 1)\<close>); their
  render is an event of its own, so that a click may come before it.
\<close>

definition exam_step :: "Env \<times> ExamEvent \<Rightarrow> ExamState \<Rightarrow> ExamState" where
  "exam_step e s =
     (if unmounted s then s
      else if render_due s then (if snd e = Render then commit (fst e) s else s)
      else case snd e of
             FetchSettled result \<Rightarrow>
               if isLoading (fst (latest s))
               then s\<lparr>latest := (fetchExam_settled result (fst (latest s)), snd (latest s))\<rparr>
               else s
           | Tick \<Rightarrow>
               if interval s
               then s\<lparr>latest := ((fst (latest s))\<lparr>timeLeft := timeLeft (fst (latest s)) - 1\<rparr>,
                                 snd (latest s))\<rparr>
               else s
           | TimerEffect \<Rightarrow> flush_effect (fst e) s
           | Render \<Rightarrow> commit (fst e) s
           | Leave \<Rightarrow>
               (flush_effect (fst e) s)\<lparr>unmounted := True, effect_pending := False,
                                          interval := False\<rparr>
           | click \<Rightarrow>
               s\<lparr>latest := exam_handle (fst e) click (rendered s) (latest s),
                 render_due := (exam_handle (fst e) click (rendered s) (latest s) \<noteq> latest s)\<rparr>)"

fun exam_steps :: "(Env \<times> ExamEvent) list \<Rightarrow> ExamState \<Rightarrow> ExamState" where
  "exam_steps [] s = s"
| "exam_steps (e # es) s = exam_steps es (exam_step e s)"

text \<open>
  A run of the component from its mounting in state \<open>st\<close>: the latest state of the view
  and the shell after the events.
\<close>

definition exam_run :: "(Env \<times> ExamEvent) list \<Rightarrow> ExamView \<times> App \<Rightarrow> ExamView \<times> App" where
  "exam_run es st = latest (exam_steps es (mount st))"

section \<open>The topic view as a transition system (TopicView)\<close>

record VocabularyItem =
  target :: string
  native :: string
  pronunciation :: "string option"

record LessonContent =
  explanation_l :: "string \<times> string"
  examples :: "(string \<times> string) list"
  warnings :: "(string \<times> string) list"
  vocabulary :: "VocabularyItem list"

record TextItem =
  title_x :: string
  content_x :: string

record ComprehensivePractice =
  readingText :: TextItem
  comprehensionQuiz :: "QuizQuestion list"
  followUpTasks :: "TaskItem list"

record TaskFeedback =
  text_f :: string
  loading :: bool
  isCorrect :: "bool option"

record TopicView =
  activeTab :: ContentSectionType
  lessonContent :: "LessonContent option"
  practiceContent :: "ComprehensivePractice option"
  isLoading_lesson :: bool
  isLoading_practice :: bool
  error_v :: "string option"
  userAnswers :: "nat \<rightharpoonup> string"
  taskFeedback :: "nat \<rightharpoonup> TaskFeedback"

text \<open>
  A topic session: the shell's state, the topic view that is shown (or the dashboard,
  when \<open>mounted\<close> is false), and the asynchronous calls that have not settled yet. A
  call that awaits the generator keeps the closure of the render it started in: its
  \<^verbatim>\<open>progress\<close> and \<^verbatim>\<open>onUpdateProgress\<close> are those of the \<^verbatim>\<open>user\<close> of that
  render, which is what the entry of an outstanding call records. The outstanding
  \<^verbatim>\<open>checkUserAnswer\<close> calls are recorded by task index. Nothing cancels a call when the
  view is unmounted: the outstanding \<^verbatim>\<open>fetchLesson\<close> and \<^verbatim>\<open>handleGeneratePractice\<close>
  calls of views that are gone are in \<open>earlier_calls\<close>, each with its kind, the id of
  its topic and the \<^verbatim>\<open>user\<close> of its closure.
\<close>

record Session =
  topic :: Topic
  view :: TopicView
  app :: App
  mounted :: bool
  lesson_fetches :: "User option list"
  practice_fetches :: "User option list"
  evaluations :: "nat list"
  earlier_calls :: "(ContentSectionType \<times> string \<times> User option) list"

text \<open>The state \<^verbatim>\<open>useState\<close> gives the view when it is created.\<close>

definition initial_view :: TopicView where
  "initial_view =
     \<lparr>activeTab = Lesson, lessonContent = None, practiceContent = None,
      isLoading_lesson = True, isLoading_practice = False, error_v = None,
      userAnswers = Map.empty, taskFeedback = Map.empty\<rparr>"

text \<open>
  The effect of the view, up to the \<^verbatim>\<open>await\<close> of \<^verbatim>\<open>fetchLesson\<close>:
  \<^verbatim>\<open>setIsLoading({ lesson: true, practice: false }); setError(null)\<close>, then the call,
  which joins the outstanding ones with the \<^verbatim>\<open>user\<close> of the render the effect
  belongs to. The effect runs when the view is mounted and again whenever \<^verbatim>\<open>level\<close>
  or \<^verbatim>\<open>topic\<close> has changed (\<^verbatim>\<open>[level, topic]\<close>).
\<close>

definition fetchLesson_started :: "Session \<Rightarrow> Session" where
  "fetchLesson_started s =
     s\<lparr>view := (view s)\<lparr>isLoading_lesson := True, isLoading_practice := False,
                            error_v := None\<rparr>,
       lesson_fetches := lesson_fetches s @ [user (app s)]\<rparr>"

text \<open>
  \<^verbatim>\<open>handleSelectTopic\<close>: the shell shows a new topic view for the topic, with the
  state \<^verbatim>\<open>useState\<close> gives it, and the effect of the view runs.
\<close>

definition mount_topic :: "Topic \<Rightarrow> Session \<Rightarrow> Session" where
  "mount_topic t s = fetchLesson_started (s\<lparr>topic := t, view := initial_view, mounted := True\<rparr>)"

text \<open>
  The session when the user, on the dashboard with no call outstanding, has selected
  the topic.
\<close>

definition initial_session :: "Topic \<Rightarrow> App \<Rightarrow> Session" where
  "initial_session t a =
     mount_topic t
       \<lparr>topic = t, view = initial_view, app = a, mounted = False, lesson_fetches = [],
        practice_fetches = [], evaluations = [], earlier_calls = []\<rparr>"

text \<open>
  \<^verbatim>\<open>handleBackToDashboard\<close>: the view is unmounted. Its outstanding fetches go on;
  their continuations will set the state of a component that is gone, which does
  nothing, and call \<^verbatim>\<open>handleProgressUpdate\<close> of their closure, which does. The
  continuation of \<^verbatim>\<open>handleCheckAnswer\<close> only sets the state of the component.
\<close>

definition leave_topic :: "Session \<Rightarrow> Session" where
  "leave_topic s =
     s\<lparr>mounted := False,
       earlier_calls := earlier_calls s
         @ map (\<lambda>closure_user. (Lesson, id_t (topic s), closure_user)) (lesson_fetches s)
         @ map (\<lambda>closure_user. (Practice, id_t (topic s), closure_user)) (practice_fetches s),
       lesson_fetches := [], practice_fetches := [], evaluations := []\<rparr>"

text \<open>
  The view's \<^verbatim>\<open>handleProgressUpdate\<close>: \<^verbatim>\<open>onUpdateProgress(topic.id, { ...progress,
  ...updates })\<close>, with the \<^verbatim>\<open>progress\<close> and the \<^verbatim>\<open>onUpdateProgress\<close> of the closure.
\<close>

definition view_handleProgressUpdate ::
  "Env \<Rightarrow> User option \<Rightarrow> string \<Rightarrow> PartialTopicProgress \<Rightarrow> App \<Rightarrow> App" where
  "view_handleProgressUpdate env closure_user topicId updates a =
     handleProgressUpdate env closure_user topicId
       (spread_progress (progress_of (userProgress closure_user topicId)) updates) a"

text \<open>
  The completion mark of both success paths, for \<^verbatim>\<open>'lesson'\<close> in \<^verbatim>\<open>fetchLesson\<close> and
  for \<^verbatim>\<open>'practice'\<close> in \<^verbatim>\<open>handleGeneratePractice\<close>:
  \<^verbatim>\<open>if (!progress.completedSections.includes(s))
       handleProgressUpdate({ completedSections: [...progress.completedSections, s] })\<close>.
\<close>

definition mark_complete ::
  "Env \<Rightarrow> ContentSectionType \<Rightarrow> User option \<Rightarrow> string \<Rightarrow> App \<Rightarrow> App" where
  "mark_complete env s closure_user topicId a =
     (let p = progress_of (userProgress closure_user topicId)
      in if s \<in> set (completedSections p) then a
         else view_handleProgressUpdate env closure_user topicId
                \<lparr>upd_completedVocabulary = None,
                 upd_completedSections = Some (completedSections p @ [s])\<rparr> a)"

text \<open>
  \<^verbatim>\<open>fetchLesson\<close> after its \<^verbatim>\<open>await\<close>, for the oldest outstanding call of the view:
  success, failure, and \<^verbatim>\<open>finally\<close>.
\<close>

definition fetchLesson_settled :: "Env \<Rightarrow> error + LessonContent \<Rightarrow> Session \<Rightarrow> Session" where
  "fetchLesson_settled env result s =
     (case lesson_fetches s of
        [] \<Rightarrow> s
      | closure_user # others \<Rightarrow>
          (case result of
             Inr generatedContent \<Rightarrow>
               s\<lparr>view := (view s)\<lparr>lessonContent := Some generatedContent,
                                  isLoading_lesson := False\<rparr>,
                 app := mark_complete env Lesson closure_user (id_t (topic s)) (app s),
                 lesson_fetches := others\<rparr>
           | Inl err \<Rightarrow>
               s\<lparr>view := (view s)\<lparr>error_v := Some (error_message err),
                                  isLoading_lesson := False\<rparr>,
                 lesson_fetches := others\<rparr>))"

text \<open>
  The continuation of a call of a view that is gone, the \<open>i\<close>-th of the outstanding
  ones: on success it marks its section complete through the handlers of its closure,
  for its own topic; on failure it does nothing that is left to see.
\<close>

definition earlier_settled :: "Env \<Rightarrow> nat \<Rightarrow> bool \<Rightarrow> Session \<Rightarrow> Session" where
  "earlier_settled env i succeeded s =
     (if i < length (earlier_calls s)
      then case earlier_calls s ! i of
             (kind, topicId, closure_user) \<Rightarrow>
               s\<lparr>app := (if succeeded then mark_complete env kind closure_user topicId (app s)
                          else app s),
                 earlier_calls := take i (earlier_calls s) @ drop (Suc i) (earlier_calls s)\<rparr>
      else s)"

text \<open>
  \<^verbatim>\<open>handleGeneratePractice\<close> up to its \<^verbatim>\<open>await\<close>: the guard, the resets, and the call,
  which joins the outstanding ones with the \<^verbatim>\<open>user\<close> of the current render.
\<close>

definition handleGeneratePractice :: "Session \<Rightarrow> Session" where
  "handleGeneratePractice s =
     (if isLoading_practice (view s) then s
      else s\<lparr>view := (view s)\<lparr>practiceContent := None, userAnswers := Map.empty,
                               taskFeedback := Map.empty, isLoading_practice := True,
                               error_v := None\<rparr>,
             practice_fetches := practice_fetches s @ [user (app s)]\<rparr>)"

text \<open>\<^verbatim>\<open>handleGeneratePractice\<close> after its \<^verbatim>\<open>await\<close>, for the oldest outstanding call.\<close>

definition generatePractice_settled ::
  "Env \<Rightarrow> error + ComprehensivePractice \<Rightarrow> Session \<Rightarrow> Session" where
  "generatePractice_settled env result s =
     (case practice_fetches s of
        [] \<Rightarrow> s
      | closure_user # others \<Rightarrow>
          (case result of
             Inr generatedContent \<Rightarrow>
               s\<lparr>view := (view s)\<lparr>practiceContent := Some generatedContent,
                                  isLoading_practice := False\<rparr>,
                 app := mark_complete env Practice closure_user (id_t (topic s)) (app s),
                 practice_fetches := others\<rparr>
           | Inl err \<Rightarrow>
               s\<lparr>view := (view s)\<lparr>error_v := Some (error_message err),
                                  isLoading_practice := False\<rparr>,
                 practice_fetches := others\<rparr>))"

text \<open>
  \<^verbatim>\<open>String.prototype.trim\<close> removes the white space at both ends; which characters are
  white space is the platform's and is a parameter. \<^verbatim>\<open>!userAnswer.trim()\<close> holds when
  nothing is left.
\<close>

definition trim :: "(char \<Rightarrow> bool) \<Rightarrow> string \<Rightarrow> string" where
  "trim ws a = rev (dropWhile ws (rev (dropWhile ws a)))"

text \<open>
  \<^verbatim>\<open>handleCheckAnswer\<close> up to its \<^verbatim>\<open>await\<close>:
  \<^verbatim>\<open>const userAnswer = userAnswers[taskIndex];
  if (!userAnswer || !userAnswer.trim()) return;
  setTaskFeedback(prev => ({ ...prev, [taskIndex]: { text: '', loading: true } }))\<close>,
  then the call of \<^verbatim>\<open>checkUserAnswer\<close>.
\<close>

definition handleCheckAnswer :: "(char \<Rightarrow> bool) \<Rightarrow> nat \<Rightarrow> Session \<Rightarrow> Session" where
  "handleCheckAnswer ws taskIndex s =
     (case userAnswers (view s) taskIndex of
        None \<Rightarrow> s
      | Some userAnswer \<Rightarrow>
          if userAnswer = [] \<or> trim ws userAnswer = [] then s
          else s\<lparr>view := (view s)\<lparr>taskFeedback := (taskFeedback (view s))
                     (taskIndex \<mapsto> \<lparr>text_f = [], loading = True, isCorrect = None\<rparr>)\<rparr>,
                 evaluations := evaluations s @ [taskIndex]\<rparr>)"

text \<open>
  \<^verbatim>\<open>handleCheckAnswer\<close> after its \<^verbatim>\<open>await\<close>, for an outstanding call on the index:
  the functional updates \<^verbatim>\<open>setTaskFeedback(prev => ({ ...prev, [taskIndex]: ... }))\<close>.
\<close>

definition checkAnswer_settled :: "nat \<Rightarrow> error + string \<times> bool \<Rightarrow> Session \<Rightarrow> Session" where
  "checkAnswer_settled taskIndex result s =
     (if taskIndex \<notin> set (evaluations s) then s
      else
        let fb = (case result of
                    Inr r \<Rightarrow> \<lparr>text_f = fst r, loading = False, isCorrect = Some (snd r)\<rparr>
                  | Inl err \<Rightarrow> \<lparr>text_f = error_message err, loading = False, isCorrect = None\<rparr>)
        in s\<lparr>view := (view s)\<lparr>taskFeedback := (taskFeedback (view s))(taskIndex \<mapsto> fb)\<rparr>,
              evaluations := remove1 taskIndex (evaluations s)\<rparr>)"

text \<open>
  What is on the screen. The practice pane (\<^verbatim>\<open>renderPracticeContent\<close>) shows the
  spinner while loading, the error if there is one, the Generate button if there is no
  content, and the content with its tasks otherwise; the Regenerate button of
  \<^verbatim>\<open>renderPracticeView\<close> is there when there is content, disabled while loading. The
  lesson pane (\<^verbatim>\<open>renderLessonView\<close>) shows the vocabulary once the lesson is loaded.
\<close>

definition task_on_screen :: "TopicView \<Rightarrow> nat \<Rightarrow> bool" where
  "task_on_screen v i =
     (activeTab v = Practice \<and> \<not> isLoading_practice v \<and> \<not> truthy (error_v v) \<and>
      (case practiceContent v of None \<Rightarrow> False | Some pc \<Rightarrow> i < length (followUpTasks pc)))"

definition generate_button_enabled :: "TopicView \<Rightarrow> bool" where
  "generate_button_enabled v =
     (activeTab v = Practice \<and> \<not> isLoading_practice v \<and>
      (practiceContent v \<noteq> None \<or> \<not> truthy (error_v v)))"

definition vocabulary_on_screen :: "TopicView \<Rightarrow> string \<Rightarrow> bool" where
  "vocabulary_on_screen v w =
     (activeTab v = Lesson \<and> \<not> isLoading_lesson v \<and>
      (case lessonContent v of None \<Rightarrow> False | Some lc \<Rightarrow> w \<in> target ` set (vocabulary lc)))"

text \<open>
  Per task: \<^verbatim>\<open>const feedback = taskFeedback[index]; const userAnswer = userAnswers[index] || '';
  const isChecked = feedback && !feedback.loading\<close>; the text area is disabled by
  \<^verbatim>\<open>isChecked\<close>, the button by \<^verbatim>\<open>!userAnswer.trim() || feedback?.loading || isChecked\<close>.
\<close>

definition isChecked :: "TopicView \<Rightarrow> nat \<Rightarrow> bool" where
  "isChecked v i = (case taskFeedback v i of None \<Rightarrow> False | Some feedback \<Rightarrow> \<not> loading feedback)"

definition check_button_disabled :: "(char \<Rightarrow> bool) \<Rightarrow> TopicView \<Rightarrow> nat \<Rightarrow> bool" where
  "check_button_disabled ws v i =
     (trim ws (case userAnswers v i of None \<Rightarrow> [] | Some a \<Rightarrow> a) = [] \<or>
      (case taskFeedback v i of None \<Rightarrow> False | Some feedback \<Rightarrow> loading feedback) \<or>
      isChecked v i)"

datatype TopicEvent =
    LessonSettled "error + LessonContent"
  | PracticeSettled "error + ComprehensivePractice"
  | EvaluationSettled nat "error + string \<times> bool"
  | ClickTab ContentSectionType
  | ClickVocabulary string
  | ClickGeneratePractice
  | ChangeAnswer nat string
  | ClickCheckAnswer nat
  | EarlierSettled nat bool
  | ClickBack
  | ChangeLevel Level
  | SelectTopic Topic

text \<open>
  One event of the view that is shown: an outstanding call of the view settles and its
  continuation runs with the closure it kept, or the user acts on the screen. A click
  acts through the handler of the latest render, whose closure holds the current
  \<open>user\<close>; a click on what is not on the screen or is disabled does nothing. Each
  event is handled to its end, with the render that follows it, before the next one is
  taken.
\<close>

fun view_step :: "(char \<Rightarrow> bool) \<Rightarrow> Env \<times> TopicEvent \<Rightarrow> Session \<Rightarrow> Session" where
  "view_step ws (env, LessonSettled result) s = fetchLesson_settled env result s"
| "view_step ws (env, PracticeSettled result) s = generatePractice_settled env result s"
| "view_step ws (env, EvaluationSettled i result) s = checkAnswer_settled i result s"
| "view_step ws (env, ClickTab tab) s = s\<lparr>view := (view s)\<lparr>activeTab := tab\<rparr>\<rparr>"
| "view_step ws (env, ClickVocabulary w) s =
     (if vocabulary_on_screen (view s) w
      then s\<lparr>app := handleProgressUpdate env (user (app s)) (id_t (topic s))
                      (handleVocabToggle
                         (progress_of (userProgress (user (app s)) (id_t (topic s)))) w)
                      (app s)\<rparr>
      else s)"
| "view_step ws (env, ClickGeneratePractice) s =
     (if generate_button_enabled (view s) then handleGeneratePractice s else s)"
| "view_step ws (env, ChangeAnswer i a) s =
     (if task_on_screen (view s) i \<and> \<not> isChecked (view s) i
      then s\<lparr>view := (view s)\<lparr>userAnswers := (userAnswers (view s))(i \<mapsto> a)\<rparr>\<rparr>
      else s)"
| "view_step ws (env, ClickCheckAnswer i) s =
     (if task_on_screen (view s) i \<and> \<not> check_button_disabled ws (view s) i
      then handleCheckAnswer ws i s else s)"
| "view_step ws (env, ClickBack) s = leave_topic s"
| "view_step ws (env, ev) s = s"

text \<open>
  One event of the dashboard: a level is chosen (\<^verbatim>\<open>handleLevelChange\<close> of the current
  render) or a topic is selected.
\<close>

fun dashboard_step :: "Env \<times> TopicEvent \<Rightarrow> Session \<Rightarrow> Session" where
  "dashboard_step (env, ChangeLevel newLevel) s =
     s\<lparr>app := handleLevelChange env (user (app s)) newLevel (app s)\<rparr>"
| "dashboard_step (env, SelectTopic t) s = mount_topic t s"
| "dashboard_step (env, ev) s = s"

text \<open>
  One event of the session. The continuation of a call of a view that is gone runs
  whatever is shown; every other event belongs to the view or to the dashboard and does
  nothing when the other is shown.
\<close>

definition topic_dispatch :: "(char \<Rightarrow> bool) \<Rightarrow> Env \<times> TopicEvent \<Rightarrow> Session \<Rightarrow> Session" where
  "topic_dispatch ws e s =
     (case snd e of
        EarlierSettled i succeeded \<Rightarrow> earlier_settled (fst e) i succeeded s
      | ev \<Rightarrow> if mounted s then view_step ws e s else dashboard_step e s)"

text \<open>
  The event with the render that follows it: where the \<^verbatim>\<open>level\<close> the shell hands to
  the view that is shown (\<^verbatim>\<open>level={user.level}\<close>) has changed, the effect of the view
  runs again.
\<close>

definition topic_step :: "(char \<Rightarrow> bool) \<Rightarrow> Env \<times> TopicEvent \<Rightarrow> Session \<Rightarrow> Session" where
  "topic_step ws e s =
     (let s' = topic_dispatch ws e s
      in if mounted s \<and> mounted s' \<and>
            map_option level (user (app s')) \<noteq> map_option level (user (app s))
         then fetchLesson_started s' else s')"

fun topic_run :: "(char \<Rightarrow> bool) \<Rightarrow> (Env \<times> TopicEvent) list \<Rightarrow> Session \<Rightarrow> Session" where
  "topic_run ws [] s = s"
| "topic_run ws (e # es) s = topic_run ws es (topic_step ws e s)"

section \<open>Notions the statements use\<close>

text \<open>Two users that agree on everything but, possibly, the level.\<close>

definition same_but_level :: "User \<Rightarrow> User \<Rightarrow> bool" where
  "same_but_level u u' =
     (name u' = name u \<and> avatar u' = avatar u \<and> progress u' = progress u \<and>
      examHistory u' = examHistory u)"

text \<open>
  The stored account of the logged-in user holds the user: what login sets up and what
  every write of \<^verbatim>\<open>persistUserUpdate\<close> that goes through sets up again.
\<close>

definition synced :: "App \<Rightarrow> bool" where
  "synced a =
     (case user a of
        None \<Rightarrow> True
      | Some u \<Rightarrow> (case accounts a (name u) of None \<Rightarrow> False | Some acct \<Rightarrow> data acct = u))"

text \<open>Sample data for the concrete instances.\<close>

definition sample_env :: Env where
  "sample_env = \<lparr>now = ''2024-05-01T10:00:00.000Z'', setItem_throws = False\<rparr>"

definition sample_user :: User where
  "sample_user =
     \<lparr>name = ''aru'', level = A1, avatar = None,
      progress = [''greetings'' \<mapsto> \<lparr>completedVocabulary = [''hello''], completedSections = [Lesson]\<rparr>],
      examHistory = Some [\<lparr>date = ''2024-04-01T09:00:00.000Z'', score = 12, total_r = 25\<rparr>]\<rparr>"

definition sample_app :: App where
  "sample_app =
     \<lparr>user = Some sample_user,
      accounts = [''aru'' \<mapsto> \<lparr>password = ''cGFzcw=='', data = sample_user\<rparr>]\<rparr>"

text \<open>
  The progress the stored account of a user holds for a topic; and the state after the
  sample user marked another word while \<^verbatim>\<open>localStorage.setItem\<close> threw: the
  user in memory has the word, the stored account does not.
\<close>

definition stored_progress :: "App \<Rightarrow> string \<Rightarrow> string \<Rightarrow> TopicProgress option" where
  "stored_progress a n tid =
     (case accounts a n of None \<Rightarrow> None | Some acct \<Rightarrow> progress (data acct) tid)"

definition refusing_env :: Env where
  "refusing_env = \<lparr>now = ''2024-05-01T09:59:00.000Z'', setItem_throws = True\<rparr>"

definition unsaved_app :: App where
  "unsaved_app =
     handleProgressUpdate refusing_env (user sample_app) ''greetings''
       (handleVocabToggle
          \<lparr>completedVocabulary = [''hello''], completedSections = [Lesson]\<rparr> ''welcome'')
       sample_app"

definition sample_topic :: Topic where
  "sample_topic = \<lparr>id_t = ''greetings'', title = ''Greetings'', emoji = ''wave''\<rparr>"

definition sample_question :: QuizQuestion where
  "sample_question =
     \<lparr>question = ''She ... a teacher.'', options = [''is'', ''are'', ''am'', ''be''],
      correctAnswer = ''is'', explanation = None\<rparr>"

definition empty_service :: Service where
  "empty_service = \<lparr>sessionStorage = Map.empty, generator_calls = 0\<rparr>"

text \<open>
  One fetch of generated content by kind: the lesson through \<^verbatim>\<open>generateLessonContent\<close>,
  the practice session through \<^verbatim>\<open>generateComprehensivePractice\<close>.
\<close>

definition fetch_content ::
  "('c \<Rightarrow> string) \<Rightarrow> (string \<Rightarrow> 'c option) \<Rightarrow> ContentSectionType \<Rightarrow> Level \<Rightarrow> Topic
     \<Rightarrow> 'c Call \<Rightarrow> Service \<Rightarrow> (error + 'c) \<times> Service" where
  "fetch_content stringify parse kind l t call s =
     (case kind of
        Lesson \<Rightarrow> generateLessonContent stringify parse l t call s
      | Practice \<Rightarrow> generateComprehensivePractice stringify parse l t call s)"

definition cache_key :: "ContentSectionType \<Rightarrow> Level \<Rightarrow> Topic \<Rightarrow> string" where
  "cache_key kind l t = (case kind of Lesson \<Rightarrow> lesson_key l t | Practice \<Rightarrow> practice_key l t)"

text \<open>
  Sample calls of the service, with content that is its own JSON text: a first call that
  finds the storage full, and a later call that finds it working.
\<close>

definition call_storage_full :: "string Call" where
  "call_storage_full = \<lparr>getItem_throws = False, storage_full = True, response = Some ''first''\<rparr>"

definition call_plain :: "string \<Rightarrow> string Call" where
  "call_plain reply = \<lparr>getItem_throws = False, storage_full = False, response = Some reply\<rparr>"

text \<open>
  The score as the specification words it: the number of indices whose stored answer is
  the question's correct answer.
\<close>

definition correct_count :: "QuizQuestion list \<Rightarrow> slot list \<Rightarrow> nat" where
  "correct_count qs ans =
     length (filter (\<lambda>i. ans ! i = Chosen (correctAnswer (qs ! i))) [0..<length ans])"

text \<open>
  A sequence of answer selections, each the assignment of \<^verbatim>\<open>handleAnswerSelect\<close> at
  the index that was current.
\<close>

fun select_answers :: "(nat \<times> string) list \<Rightarrow> slot list \<Rightarrow> slot list" where
  "select_answers [] ans = ans"
| "select_answers ((i, option) # rest) ans = select_answers rest (array_set ans i (Chosen option))"

definition sample_task :: TaskItem where
  "sample_task =
     \<lparr>instruction = ''Complete the sentence:'', prompt = ''She ... a teacher.'',
      suggestedAnswer = ''is''\<rparr>"

definition sample_practice :: ComprehensivePractice where
  "sample_practice =
     \<lparr>readingText = \<lparr>title_x = ''At school'', content_x = ''She is a teacher.''\<rparr>,
      comprehensionQuiz = [sample_question],
      followUpTasks = [sample_task, sample_task, sample_task, sample_task]\<rparr>"

definition sample_lesson :: LessonContent where
  "sample_lesson =
     \<lparr>explanation_l = (''Say hello.'', ''Salem de.''), examples = [], warnings = [],
      vocabulary = [\<lparr>target = ''teacher'', native = ''mugalim'', pronunciation = None\<rparr>]\<rparr>"

definition space :: "char \<Rightarrow> bool" where
  "space c = (c = CHR '' '')"

text \<open>
  A run of a topic session: the practice session is generated, task 3 is answered,
  submitted and evaluated as correct.
\<close>

definition evaluated_session :: Session where
  "evaluated_session =
     topic_run space
       [(sample_env, ClickTab Practice), (sample_env, ClickGeneratePractice),
        (sample_env, PracticeSettled (Inr sample_practice)),
        (sample_env, ChangeAnswer 3 ''is''), (sample_env, ClickCheckAnswer 3),
        (sample_env, EvaluationSettled 3 (Inr (''Durys!'', True)))]
       (initial_session sample_topic sample_app)"

text \<open>
  A third run: task 3 is submitted and, while its evaluation is outstanding, practice is
  regenerated (the service answers with the same session), and task 3 is answered again.
  A fourth: task 3 is evaluated, practice is regenerated, and task 3 is answered again.
\<close>

definition regenerated_while_checking :: Session where
  "regenerated_while_checking =
     topic_run space
       [(sample_env, ClickTab Practice), (sample_env, ClickGeneratePractice),
        (sample_env, PracticeSettled (Inr sample_practice)),
        (sample_env, ChangeAnswer 3 ''is''), (sample_env, ClickCheckAnswer 3),
        (sample_env, ClickGeneratePractice),
        (sample_env, PracticeSettled (Inr sample_practice)),
        (sample_env, ChangeAnswer 3 ''is'')]
       (initial_session sample_topic sample_app)"

definition regenerated_after_check :: Session where
  "regenerated_after_check =
     topic_run space
       [(sample_env, ClickGeneratePractice),
        (sample_env, PracticeSettled (Inr sample_practice)),
        (sample_env, ChangeAnswer 3 ''is'')]
       evaluated_session"



text \<open>
  What holds of the view in every state of a run: while the fetch is loading there are
  no questions; without questions the exam is neither started nor finished; and the
  answers array has one slot per question.
\<close>

definition exam_shape :: "ExamView \<Rightarrow> bool" where
  "exam_shape v =
     ((isLoading v \<longrightarrow> questions v = None) \<and>
      (questions v = None \<longrightarrow> \<not> examStarted v \<and> \<not> examFinished v) \<and>
      (case questions v of None \<Rightarrow> True | Some qs \<Rightarrow> length (answers v) = length qs))"

text \<open>
  The same of the mounted component: the shape holds of the committed and of the latest
  state, and once a commit has questions, they are the questions of the latest state.
\<close>

definition exam_sync :: "ExamState \<Rightarrow> bool" where
  "exam_sync s =
     (exam_shape (fst (latest s)) \<and> exam_shape (fst (rendered s)) \<and>
      (questions (fst (rendered s)) \<noteq> None \<longrightarrow>
         questions (fst (latest s)) = questions (fst (rendered s))))"








text \<open>
  A user who has just signed up, and two runs of a topic session of that user. In the
  first the lesson arrives, practice generation is requested, and while it is outstanding
  the user goes back to the lesson and marks the word \<open>teacher\<close>. In the second,
  practice generation is requested while the lesson is still loading.
\<close>

definition fresh_user :: User where
  "fresh_user =
     \<lparr>name = ''dana'', level = A1, avatar = None, progress = Map.empty, examHistory = Some []\<rparr>"

definition fresh_app :: App where
  "fresh_app =
     \<lparr>user = Some fresh_user,
      accounts = [''dana'' \<mapsto> \<lparr>password = ''cGFzcw=='', data = fresh_user\<rparr>]\<rparr>"

definition toggle_during_practice :: "(Env \<times> TopicEvent) list" where
  "toggle_during_practice =
     [(sample_env, LessonSettled (Inr sample_lesson)), (sample_env, ClickTab Practice),
      (sample_env, ClickGeneratePractice), (sample_env, ClickTab Lesson),
      (sample_env, ClickVocabulary ''teacher'')]"

definition practice_during_lesson :: "(Env \<times> TopicEvent) list" where
  "practice_during_lesson =
     [(sample_env, ClickTab Practice), (sample_env, ClickGeneratePractice),
      (sample_env, LessonSettled (Inr sample_lesson))]"

text \<open>The progress of the session's topic as the shell holds it.\<close>

definition current_progress :: "Session \<Rightarrow> TopicProgress" where
  "current_progress s = progress_of (userProgress (user (app s)) (id_t (topic s)))"

text \<open>
  A run in which the practice mark is set again while it is present. The lesson of the
  topic arrives and practice generation is requested; the user goes back to the
  dashboard and opens the topic again; the lesson arrives, and practice generation is
  requested in the new view. Then the practice fetch of the first view succeeds and
  marks practice complete; the user marks the word \<open>teacher\<close> in the lesson. The
  practice fetch of the new view is still outstanding.
\<close>

definition marked_again_events :: "(Env \<times> TopicEvent) list" where
  "marked_again_events =
     [(sample_env, LessonSettled (Inr sample_lesson)), (sample_env, ClickTab Practice),
      (sample_env, ClickGeneratePractice),
      (sample_env, ClickBack), (sample_env, SelectTopic sample_topic),
      (sample_env, LessonSettled (Inr sample_lesson)), (sample_env, ClickTab Practice),
      (sample_env, ClickGeneratePractice),
      (sample_env, EarlierSettled 0 True),
      (sample_env, ClickTab Lesson), (sample_env, ClickVocabulary ''teacher'')]"

text \<open>
  A run in which a practice fetch is outstanding when the level changes under the view.
  The new user opens a topic at level A1 and goes back to the dashboard while the lesson
  is loading, chooses level A2, opens another topic and requests practice generation.
\<close>

definition second_topic :: Topic where
  "second_topic = \<lparr>id_t = ''travel'', title = ''Travel'', emoji = []\<rparr>"

definition practice_requested_events :: "(Env \<times> TopicEvent) list" where
  "practice_requested_events =
     [(sample_env, ClickBack), (sample_env, ChangeLevel A2),
      (sample_env, SelectTopic second_topic),
      (sample_env, ClickTab Practice), (sample_env, ClickGeneratePractice)]"

section \<open>Proofs\<close>

section \<open>Vocabulary toggle\<close>

lemma set_toggled_vocabulary:
  "set (toggled_vocabulary w xs) = (if w \<in> set xs then set xs - {w} else insert w (set xs))"
  by (auto simp: toggled_vocabulary_def)

lemma distinct_toggled_vocabulary:
  "distinct xs \<Longrightarrow> distinct (toggled_vocabulary w xs)"
  by (simp add: toggled_vocabulary_def)

lemma completedVocabulary_handleVocabToggle:
  "completedVocabulary (handleVocabToggle p w) = toggled_vocabulary w (completedVocabulary p)"
  by (simp add: handleVocabToggle_def spread_progress_def)

lemma completedSections_handleVocabToggle:
  "completedSections (handleVocabToggle p w) = completedSections p"
  by (simp add: handleVocabToggle_def spread_progress_def)

text \<open>
  C6. Toggling a word removes it from the completed vocabulary if it is there and adds
  it otherwise; a vocabulary without duplicates stays without duplicates; and toggling
  the same word twice gives back the set of words the toggle started from (the very
  same array when the word was not in it; when it was, the word has moved to the end).
  The sections are not touched.
\<close>

theorem C6_vocabulary_toggle:
  "set (completedVocabulary (handleVocabToggle p w)) =
     (if w \<in> set (completedVocabulary p)
      then set (completedVocabulary p) - {w}
      else insert w (set (completedVocabulary p)))
   \<and> (distinct (completedVocabulary p) \<longrightarrow>
        distinct (completedVocabulary (handleVocabToggle p w)))
   \<and> set (completedVocabulary (handleVocabToggle (handleVocabToggle p w) w)) =
       set (completedVocabulary p)
   \<and> (w \<notin> set (completedVocabulary p) \<longrightarrow>
        handleVocabToggle (handleVocabToggle p w) w = p)
   \<and> completedSections (handleVocabToggle p w) = completedSections p"
proof -
  let ?v = "completedVocabulary p"
  have twice: "set (toggled_vocabulary w (toggled_vocabulary w ?v)) = set ?v"
    by (auto simp: set_toggled_vocabulary)
  have same: "handleVocabToggle (handleVocabToggle p w) w = p" if "w \<notin> set ?v"
    using that
    by (cases p)
       (auto simp: handleVocabToggle_def spread_progress_def toggled_vocabulary_def
          filter_id_conv)
  show ?thesis
    using twice same
    by (simp add: completedVocabulary_handleVocabToggle completedSections_handleVocabToggle
        set_toggled_vocabulary distinct_toggled_vocabulary)
qed

theorem C6_vocabulary_toggle_witness:
  "distinct (completedVocabulary \<lparr>completedVocabulary = [''cat'', ''dog''], completedSections = [Lesson]\<rparr>)
   \<and> completedVocabulary
        (handleVocabToggle \<lparr>completedVocabulary = [''cat'', ''dog''], completedSections = [Lesson]\<rparr> ''cat'')
       = [''dog'']
   \<and> distinct (completedVocabulary
        (handleVocabToggle \<lparr>completedVocabulary = [''cat'', ''dog''], completedSections = [Lesson]\<rparr> ''cat''))"
  using C6_vocabulary_toggle
    [of "\<lparr>completedVocabulary = [''cat'', ''dog''], completedSections = [Lesson]\<rparr>" "''cat''"]
  by (simp add: handleVocabToggle_def spread_progress_def toggled_vocabulary_def)

section \<open>Level change\<close>

lemma persistUserUpdate_other:
  "k \<noteq> name u' \<Longrightarrow> persistUserUpdate env u' accts k = accts k"
  by (simp add: persistUserUpdate_def split: option.splits)

lemma persistUserUpdate_absent:
  "accts k = None \<Longrightarrow> persistUserUpdate env u' accts k = None"
  by (auto simp: persistUserUpdate_def split: option.splits)

lemma persistUserUpdate_own:
  "accts (name u') = Some acct \<Longrightarrow>
   persistUserUpdate env u' accts (name u') =
     Some (if setItem_throws env then acct else acct\<lparr>data := u'\<rparr>)"
  by (simp add: persistUserUpdate_def)

lemma handleLogin_synced:
  "handleLogin atob n pass a = Inr a' \<Longrightarrow>
   \<exists>acct. accounts a' n = Some acct \<and> user a' = Some (data acct)"
  by (auto simp: handleLogin_def split: option.splits if_splits)

text \<open>
  Login gives a synced state where the accounts are stored under their own names (as
  \<^verbatim>\<open>handleSignUp\<close> stores them), and each handler of the shell, whatever closure it
  runs with, leaves a synced state when its write goes through.
\<close>

lemma login_synced:
  "handleLogin atob n pass a = Inr a' \<Longrightarrow>
   (\<And>k acct. accounts a k = Some acct \<Longrightarrow> name (data acct) = k) \<Longrightarrow> synced a'"
  by (auto simp: handleLogin_def synced_def split: option.splits if_splits)

lemma persisted_synced:
  assumes "accounts a (name u) \<noteq> None" "\<not> setItem_throws env"
  shows "synced (handleLevelChange env (Some u) l a)"
    and "synced (handleProgressUpdate env (Some u) tid p a)"
    and "synced (handleSaveExamResult env (Some u) r a)"
  using assms
  by (auto simp: synced_def handleLevelChange_def handleProgressUpdate_def
      handleSaveExamResult_def persistUserUpdate_def Let_def)

text \<open>
  The claim that a level change leaves name, avatar, progress and exam history of the
  stored account record unchanged fails where the stored record is behind the user in
  memory, as it is after a write that \<^verbatim>\<open>persistUserUpdate\<close> caught and logged: the
  level change stores the whole user of the memory, and the stored progress changes.
\<close>

theorem C10_counterexample:
  "map_option name (user unsaved_app) = Some ''aru''
   \<and> stored_progress unsaved_app ''aru'' ''greetings''
       = Some \<lparr>completedVocabulary = [''hello''], completedSections = [Lesson]\<rparr>
   \<and> stored_progress (handleLevelChange sample_env (user unsaved_app) B2 unsaved_app)
         ''aru'' ''greetings''
       = Some \<lparr>completedVocabulary = [''hello'', ''welcome''], completedSections = [Lesson]\<rparr>"
  by (simp add: unsaved_app_def stored_progress_def handleLevelChange_def
      handleProgressUpdate_def persistUserUpdate_def handleVocabToggle_def spread_progress_def
      toggled_vocabulary_def sample_app_def sample_user_def sample_env_def refusing_env_def
      Let_def)

text \<open>
  C10, as the code has it. Let \<open>u\<close> be the \<^verbatim>\<open>user\<close> of the render whose
  \<^verbatim>\<open>handleLevelChange\<close> runs (the current user, for a click on the dashboard that
  is up to date). The level change makes the user in memory \<open>u\<close> with the level
  replaced: name, avatar, progress and exam history are those of \<open>u\<close>. In the stored
  accounts, the record under the user's name, when there is one and the write is not
  refused, keeps its password and gets that updated user as its data; in every other
  case nothing is written, and every other record is as it was. So name, avatar,
  progress and exam history of the stored record are unchanged where the stored data
  agreed with \<open>u\<close> on them before the change, and are otherwise replaced by those of
  \<open>u\<close> when the write goes through.
\<close>

theorem C10_level_change_frame:
  "user (handleLevelChange env (Some u) l a) = Some (u\<lparr>level := l\<rparr>)
   \<and> same_but_level u (u\<lparr>level := l\<rparr>)
   \<and> (\<forall>k. accounts (handleLevelChange env (Some u) l a) k =
         (if k = name u \<and> \<not> setItem_throws env
          then map_option (\<lambda>acct. acct\<lparr>data := u\<lparr>level := l\<rparr>\<rparr>) (accounts a k)
          else accounts a k))
   \<and> (\<forall>acct. accounts a (name u) = Some acct \<and> same_but_level u (data acct) \<longrightarrow>
        (\<exists>acct'. accounts (handleLevelChange env (Some u) l a) (name u) = Some acct' \<and>
           password acct' = password acct \<and>
           same_but_level (data acct) (data acct')))"
proof -
  let ?u' = "u\<lparr>level := l\<rparr>"
  let ?a' = "handleLevelChange env (Some u) l a"
  have user': "user ?a' = Some ?u'"
    by (simp add: handleLevelChange_def Let_def)
  have accts': "accounts ?a' = persistUserUpdate env ?u' (accounts a)"
    by (simp add: handleLevelChange_def Let_def)
  have frame: "same_but_level u ?u'"
    by (simp add: same_but_level_def)
  have stored: "accounts ?a' k =
      (if k = name u \<and> \<not> setItem_throws env
       then map_option (\<lambda>acct. acct\<lparr>data := ?u'\<rparr>) (accounts a k)
       else accounts a k)" for k
    by (simp add: accts' persistUserUpdate_def split: option.splits)
  have agreed: "\<exists>acct'. accounts ?a' (name u) = Some acct' \<and> password acct' = password acct \<and>
      same_but_level (data acct) (data acct')"
    if "accounts a (name u) = Some acct \<and> same_but_level u (data acct)" for acct
    using that by (auto simp: stored same_but_level_def)
  show ?thesis using user' frame stored agreed by blast
qed

theorem C10_level_change_frame_witness:
  "user sample_app = Some sample_user
   \<and> accounts sample_app ''aru'' = Some \<lparr>password = ''cGFzcw=='', data = sample_user\<rparr>
   \<and> same_but_level sample_user sample_user
   \<and> map_option level (user (handleLevelChange sample_env (user sample_app) B2 sample_app)) = Some B2
   \<and> map_option (level \<circ> data)
        (accounts (handleLevelChange sample_env (user sample_app) B2 sample_app) ''aru'') = Some B2
   \<and> map_option (examHistory \<circ> data)
        (accounts (handleLevelChange sample_env (user sample_app) B2 sample_app) ''aru'')
       = Some (examHistory sample_user)
   \<and> stored_progress (handleLevelChange sample_env (user sample_app) B2 sample_app)
        ''aru'' ''greetings''
       = stored_progress sample_app ''aru'' ''greetings''"
  using C10_level_change_frame [of sample_env sample_user B2 sample_app]
  by (simp add: sample_app_def sample_user_def sample_env_def handleLevelChange_def
      persistUserUpdate_def same_but_level_def stored_progress_def Let_def)

section \<open>The exam fetch\<close>

text \<open>
  The claim that every successful exam fetch yields exactly 25 questions fails: the
  service returns the list of the reply as it came, and a reply with one question is a
  successful fetch of one question.
\<close>

theorem C9_counterexample:
  "fst (generateExam (Some [sample_question]) empty_service) = Inr [sample_question]
   \<and> length [sample_question] \<noteq> 25
   \<and> questions (fetchExam_settled (fst (generateExam (Some [sample_question]) empty_service))
        initial_exam) = Some [sample_question]"
  by (simp add: generateExam_def fetchExam_settled_def Let_def)

text \<open>
  C9, as the code has it. A successful exam fetch yields the questions of the
  generator's reply, in their order and however many they are (25 is what the prompt
  asks the generator for; nothing checks it); the generator is called once. The countdown
  starts at 30 minutes, that is 1800 seconds. When the fetch has settled, the answers
  array has one slot per question, every slot unanswered.
\<close>

theorem C9_exam_fetch:
  "generateExam (Some quiz) s = (Inr quiz, s\<lparr>generator_calls := generator_calls s + 1\<rparr>)
   \<and> timeLeft initial_exam = 30 * 60
   \<and> questions (fetchExam_settled (Inr quiz) initial_exam) = Some quiz
   \<and> length (answers (fetchExam_settled (Inr quiz) initial_exam)) = length quiz
   \<and> answers (fetchExam_settled (Inr quiz) initial_exam) = replicate (length quiz) Null"
  by (simp add: generateExam_def fetchExam_settled_def initial_exam_def EXAM_DURATION_def Let_def)

section \<open>The content cache\<close>

lemma length_level_string: "length (level_string l) = 2"
  by (cases l) (simp_all add: level_string_def)

lemma level_string_inj: "level_string l = level_string l' \<longleftrightarrow> l = l'"
  by (cases l; cases l') (simp_all add: level_string_def)

lemma level_append_inj:
  "level_string l @ x = level_string l' @ y \<longleftrightarrow> l = l' \<and> x = y"
  using length_level_string [of l] length_level_string [of l']
  by (auto simp: level_string_inj)

lemma cache_key_inj:
  "cache_key kind l t = cache_key kind' l' t' \<longleftrightarrow> kind = kind' \<and> l = l' \<and> id_t t = id_t t'"
  by (cases kind; cases kind')
     (simp_all add: cache_key_def lesson_key_def practice_key_def level_append_inj)

lemma fetch_content_unfold:
  "fetch_content stringify parse kind l t call s =
     (case cache_lookup parse (cache_key kind l t) call s of
        Some cached \<Rightarrow> (Inr cached, s)
      | None \<Rightarrow>
          generate_and_cache stringify (cache_key kind l t)
            (case kind of
               Lesson \<Rightarrow> ''Failed to generate the lesson. Please try again.''
             | Practice \<Rightarrow> ''Failed to generate practice session. Please try again.'')
            call s)"
  by (cases kind)
     (simp_all add: fetch_content_def cache_key_def generateLessonContent_def
        generateComprehensivePractice_def split: option.splits)

lemma cache_lookup_hit:
  "cache_lookup parse key call s = Some cached \<Longrightarrow>
   fetch_content stringify parse kind l t call s = (Inr cached, s)"
  if "key = cache_key kind l t"
  using that by (simp add: fetch_content_unfold)

lemma first_fetch_entry:
  assumes first: "fetch_content stringify parse kind l t call1 s = (Inr c, s1)"
    and stored: "\<not> storage_full call1"
    and json: "parse (stringify c) = Some c" "stringify c \<noteq> []"
  shows "\<exists>cachedData. sessionStorage s1 (cache_key kind l t) = Some cachedData \<and>
           cachedData \<noteq> [] \<and> parse cachedData = Some c"
proof (cases "cache_lookup parse (cache_key kind l t) call1 s")
  case (Some cached)
  with first have eq: "cached = c" "s1 = s"
    by (simp_all add: fetch_content_unfold)
  from Some eq show ?thesis
    by (auto simp: cache_lookup_def split: if_splits option.splits)
next
  case None
  with first stored have "response call1 = Some c"
    and s1: "s1 = s\<lparr>generator_calls := generator_calls s + 1,
               sessionStorage := (sessionStorage s)(cache_key kind l t \<mapsto> stringify c)\<rparr>"
    by (auto simp: fetch_content_unfold generate_and_cache_def Let_def split: option.splits)
  from s1 json show ?thesis by simp
qed

lemma later_fetch_hits:
  assumes first: "fetch_content stringify parse kind l t call1 s = (Inr c, s1)"
    and stored: "\<not> storage_full call1"
    and kept: "sessionStorage s2 (cache_key kind l t) = sessionStorage s1 (cache_key kind l t)"
    and readable: "\<not> getItem_throws call2"
    and json: "parse (stringify c) = Some c" "stringify c \<noteq> []"
  shows "fetch_content stringify parse kind l t call2 s2 = (Inr c, s2)"
proof -
  from first_fetch_entry [OF first stored json] kept readable
  have "cache_lookup parse (cache_key kind l t) call2 s2 = Some c"
    by (auto simp: cache_lookup_def)
  then show ?thesis by (simp add: fetch_content_unfold)
qed

lemma unreadable_fetch_generates:
  "getItem_throws call \<Longrightarrow>
   generator_calls (snd (fetch_content stringify parse kind l t call s)) = generator_calls s + 1"
  by (simp add: fetch_content_unfold cache_lookup_def generate_and_cache_def Let_def
      split: option.splits)

text \<open>
  The claim that a second fetch never calls the generator fails in two ways. Where the
  first fetch could not write to the cache (\<^verbatim>\<open>sessionStorage.setItem\<close> throws, the
  function logs it and returns the content), the next fetch of the same lesson finds
  nothing, calls the generator again and returns what it answers this time. And where
  the second fetch starts while the first awaits the generator, both have looked the key
  up in a cache that was still empty, and both call the generator.
\<close>

theorem C3_counterexample:
  "fst (fetch_content id Some Lesson A1 sample_topic call_storage_full empty_service)
     = Inr ''first''
   \<and> fst (fetch_content id Some Lesson A1 sample_topic (call_plain ''second'')
        (snd (fetch_content id Some Lesson A1 sample_topic call_storage_full empty_service)))
     = Inr ''second''
   \<and> generator_calls
       (snd (fetch_content id Some Lesson A1 sample_topic (call_plain ''second'')
          (snd (fetch_content id Some Lesson A1 sample_topic call_storage_full
             empty_service)))) = 2
   \<and> cache_lookup Some (lesson_key A1 sample_topic) (call_plain ''first'') empty_service = None
   \<and> cache_lookup Some (lesson_key A1 sample_topic) (call_plain ''second'') empty_service = None
   \<and> generator_calls
       (snd (generate_and_cache id (lesson_key A1 sample_topic) [] (call_plain ''second'')
          (snd (generate_and_cache id (lesson_key A1 sample_topic) []
             (call_plain ''first'') empty_service)))) = 2"
  by (simp add: fetch_content_def generateLessonContent_def cache_lookup_def
      generate_and_cache_def call_storage_full_def call_plain_def empty_service_def Let_def)

text \<open>
  C3, as the code has it. A cache hit is returned as it is, with the service state (and
  so the count of generator calls) unchanged. When a fetch has returned content and its
  write to the cache was not refused, then a later fetch of the same kind, level and
  topic returns the same content and leaves the state unchanged -- the generator is not
  called -- under all of these conditions: the entry under the cache key is, when the
  later fetch starts, the one the first fetch left (no other fetch that had missed the
  cache wrote the key in between); \<^verbatim>\<open>sessionStorage.getItem\<close> does not throw at the
  later fetch; the content survives \<^verbatim>\<open>JSON.parse(JSON.stringify(content))\<close>; and its
  JSON text is not empty. A fetch at which \<^verbatim>\<open>sessionStorage.getItem\<close> throws calls the
  generator whatever the cache holds. Different (kind, level, topic id) never share a
  cache key.
\<close>

theorem C3_cached_fetch:
  "(cache_lookup parse (cache_key kind l t) call s = Some cached \<longrightarrow>
      fetch_content stringify parse kind l t call s = (Inr cached, s))
   \<and> (fetch_content stringify parse kind l t call1 s = (Inr c, s1) \<and>
      \<not> storage_full call1 \<and>
      sessionStorage s2 (cache_key kind l t) = sessionStorage s1 (cache_key kind l t) \<and>
      \<not> getItem_throws call2 \<and>
      parse (stringify c) = Some c \<and> stringify c \<noteq> [] \<longrightarrow>
        fetch_content stringify parse kind l t call2 s2 = (Inr c, s2))
   \<and> (getItem_throws call3 \<longrightarrow>
        generator_calls (snd (fetch_content stringify parse kind l t call3 s3))
          = generator_calls s3 + 1)
   \<and> (cache_key kind l t = cache_key kind' l' t' \<longleftrightarrow>
        kind = kind' \<and> l = l' \<and> id_t t = id_t t')"
  using cache_lookup_hit [of "cache_key kind l t" kind l t parse call s cached stringify]
    later_fetch_hits [of stringify parse kind l t call1 s c s1 s2 call2]
    unreadable_fetch_generates [of call3 stringify parse kind l t s3]
    cache_key_inj [of kind l t kind' l' t']
  by blast

text \<open>
  A practice session is fetched and cached; a lesson of another topic is fetched in
  between; the later fetch of the practice session returns the cached content and the
  generator has been called twice, never for the practice session again.
\<close>

theorem C3_cached_fetch_witness:
  "fetch_content id Some Practice B1 sample_topic (call_plain ''first'') empty_service
     = (Inr ''first'',
        \<lparr>sessionStorage = [''comprehensive-practice-B1-greetings'' \<mapsto> ''first''],
         generator_calls = 1\<rparr>)
   \<and> \<not> storage_full (call_plain ''first'') \<and> \<not> getItem_throws (call_plain ''second'')
   \<and> fetch_content id Some Practice B1 sample_topic (call_plain ''second'')
        \<lparr>sessionStorage = [''comprehensive-practice-B1-greetings'' \<mapsto> ''first'',
                            ''lesson-B1-travel'' \<mapsto> ''other''],
         generator_calls = 2\<rparr>
     = (Inr ''first'',
        \<lparr>sessionStorage = [''comprehensive-practice-B1-greetings'' \<mapsto> ''first'',
                            ''lesson-B1-travel'' \<mapsto> ''other''],
         generator_calls = 2\<rparr>)"
proof -
  have first: "fetch_content id Some Practice B1 sample_topic (call_plain ''first'')
      empty_service
     = (Inr ''first'',
        \<lparr>sessionStorage = [''comprehensive-practice-B1-greetings'' \<mapsto> ''first''],
         generator_calls = 1\<rparr>)"
    by (simp add: fetch_content_def generateComprehensivePractice_def cache_lookup_def
        generate_and_cache_def call_plain_def empty_service_def practice_key_def
        level_string_def sample_topic_def Let_def)
  have flags: "\<not> storage_full (call_plain ''first'')" "\<not> getItem_throws (call_plain ''second'')"
    by (simp_all add: call_plain_def)
  have key: "cache_key Practice B1 sample_topic = ''comprehensive-practice-B1-greetings''"
    by (simp add: cache_key_def practice_key_def level_string_def sample_topic_def)
  show ?thesis
    using first flags key
      C3_cached_fetch [of Some "Practice" B1 sample_topic "call_plain ''first''" empty_service
        "''first''" id "call_plain ''first''" "''first''"
        "\<lparr>sessionStorage = [''comprehensive-practice-B1-greetings'' \<mapsto> ''first''],
          generator_calls = 1\<rparr>"
        "\<lparr>sessionStorage = [''comprehensive-practice-B1-greetings'' \<mapsto> ''first'',
                              ''lesson-B1-travel'' \<mapsto> ''other''],
          generator_calls = 2\<rparr>" "call_plain ''second''"]
    by simp
qed

section \<open>The exam score: the reduce as a count\<close>

lemma count_Cons:
  "length (filter P [0..<Suc n]) = (if P 0 then 1 else 0) + length (filter (P \<circ> Suc) [0..<n])"
proof -
  have "[0..<Suc n] = 0 # map Suc [0..<n]"
    by (simp add: upt_conv_Cons map_Suc_upt del: upt_Suc)
  then show ?thesis by (simp add: filter_map del: upt_Suc)
qed

lemma reduce_score_count:
  "index + length ans \<le> length qs \<Longrightarrow>
   reduce_score qs index ans sc =
     Inr (sc + length (filter (\<lambda>j. ans ! j = Chosen (correctAnswer (qs ! (index + j))))
                  [0..<length ans]))"
proof (induction ans arbitrary: index sc)
  case Nil
  then show ?case by simp
next
  case (Cons a rest)
  then have ih: "\<And>sc'. reduce_score qs (Suc index) rest sc' =
     Inr (sc' + length (filter (\<lambda>j. rest ! j = Chosen (correctAnswer (qs ! (Suc index + j))))
                  [0..<length rest]))"
    by simp
  from Cons.prems have lt: "index < length qs" by simp
  show ?case
    using lt by (cases a) (simp_all add: ih count_Cons comp_def del: upt_Suc)
qed

lemma length_array_set: "i < length xs \<Longrightarrow> length (array_set xs i v) = length xs"
  by (simp add: array_set_def)

lemma length_select_answers:
  "\<forall>(i, opt) \<in> set sels. i < length ans \<Longrightarrow> length (select_answers sels ans) = length ans"
  by (induction sels ans rule: select_answers.induct) (auto simp: length_array_set)

lemma calculateScore_count:
  "length ans \<le> length qs \<Longrightarrow> calculateScore (Some qs) ans = Inr (correct_count qs ans)"
  using reduce_score_count [of 0 ans qs 0]
  by (simp add: calculateScore_def correct_count_def)

lemma correct_count_unanswered: "correct_count qs (replicate n Null) = 0"
  by (simp add: correct_count_def)

section \<open>Task answer submission\<close>

lemma trim_empty_iff: "trim ws a = [] \<longleftrightarrow> (\<forall>c \<in> set a. ws c)"
proof -
  have "dropWhile ws (rev (dropWhile ws a)) = [] \<longleftrightarrow> dropWhile ws a = []"
  proof (cases "dropWhile ws a")
    case Nil
    then show ?thesis by (simp del: dropWhile_eq_Nil_conv)
  next
    case (Cons x xs)
    then have "\<not> ws x" using hd_dropWhile [of ws a] by auto
    with Cons show ?thesis by auto
  qed
  then show ?thesis by (simp add: trim_def)
qed

lemma handleCheckAnswer_accepted:
  "userAnswers (view s) i = Some a \<Longrightarrow> \<not> (\<forall>c \<in> set a. ws c) \<Longrightarrow>
   taskFeedback (view (handleCheckAnswer ws i s)) i
     = Some \<lparr>text_f = [], loading = True, isCorrect = None\<rparr>
   \<and> evaluations (handleCheckAnswer ws i s) = evaluations s @ [i]"
  by (auto simp: handleCheckAnswer_def trim_empty_iff)

lemma checkAnswer_settled_resolved:
  "i \<in> set (evaluations s) \<Longrightarrow>
   \<exists>fb. taskFeedback (view (checkAnswer_settled i r s)) i = Some fb \<and> \<not> loading fb"
  by (auto simp: checkAnswer_settled_def Let_def split: sum.splits)

lemmas session_eval =
  topic_step_def topic_dispatch_def initial_session_def mount_topic_def fetchLesson_started_def
  initial_view_def generate_button_enabled_def handleGeneratePractice_def
  generatePractice_settled_def task_on_screen_def truthy_def sample_practice_def isChecked_def
  check_button_disabled_def handleCheckAnswer_def checkAnswer_settled_def trim_def space_def
  mark_complete_def view_handleProgressUpdate_def handleProgressUpdate_def
  persistUserUpdate_def spread_progress_def progress_of_def userProgress_def
  empty_progress_def sample_topic_def sample_app_def sample_user_def Let_def

text \<open>
  The claim that a submission is a no-op whenever an evaluation for the index is in
  flight or has resolved earlier in the session fails across a regeneration of the
  practice: \<^verbatim>\<open>handleGeneratePractice\<close> clears the feedback of every task, and
  the index can be submitted again -- while the evaluation issued before is still
  outstanding (two outstanding evaluations for index 3), or after it has resolved (a
  second evaluation of index 3 in the session).
\<close>

theorem C5_counterexample:
  "evaluations regenerated_while_checking = [3]
   \<and> evaluations (topic_step space (sample_env, ClickCheckAnswer 3) regenerated_while_checking)
       = [3, 3]
   \<and> taskFeedback (view
        (topic_step space (sample_env, ClickCheckAnswer 3) regenerated_while_checking)) 3
       = Some \<lparr>text_f = [], loading = True, isCorrect = None\<rparr>
   \<and> taskFeedback (view evaluated_session) 3
       = Some \<lparr>text_f = ''Durys!'', loading = False, isCorrect = Some True\<rparr>
   \<and> evaluations (topic_step space (sample_env, ClickCheckAnswer 3) regenerated_after_check)
       = [3]"
  by (simp add: regenerated_while_checking_def regenerated_after_check_def
      evaluated_session_def session_eval)

text \<open>
  C5, as the code has it. A submission for a task index leaves the whole session as it
  is -- the per-task feedback, and the outstanding calls of the answer evaluation, to
  which every accepted submission adds one -- when the answer for that index is empty
  or all white space, or the feedback state of that index is resolved (present and not
  loading), or the feedback state of that index is loading. The button's
  \<^verbatim>\<open>disabled\<close> condition rejects all three; the handler itself rejects the
  first. The feedback state is what a generate request clears.
\<close>

theorem C5_submission_rejected:
  assumes "(\<forall>c \<in> set (case userAnswers (view s) i of None \<Rightarrow> [] | Some a \<Rightarrow> a). ws c)
         \<or> (\<exists>fb. taskFeedback (view s) i = Some fb \<and> \<not> loading fb)
         \<or> (\<exists>fb. taskFeedback (view s) i = Some fb \<and> loading fb)"
  shows "topic_step ws (env, ClickCheckAnswer i) s = s
       \<and> ((\<forall>c \<in> set (case userAnswers (view s) i of None \<Rightarrow> [] | Some a \<Rightarrow> a). ws c) \<longrightarrow>
            handleCheckAnswer ws i s = s)"
proof -
  from assms have "check_button_disabled ws (view s) i"
    by (auto simp: check_button_disabled_def isChecked_def trim_empty_iff)
  then have "topic_step ws (env, ClickCheckAnswer i) s = s"
    by (simp add: topic_step_def topic_dispatch_def)
  moreover have "handleCheckAnswer ws i s = s"
    if "\<forall>c \<in> set (case userAnswers (view s) i of None \<Rightarrow> [] | Some a \<Rightarrow> a). ws c"
    using that by (auto simp: handleCheckAnswer_def trim_empty_iff split: option.splits)
  ultimately show ?thesis by blast
qed

lemma evaluated_session_feedback:
  "taskFeedback (view evaluated_session) 3
     = Some \<lparr>text_f = ''Durys!'', loading = False, isCorrect = Some True\<rparr>
   \<and> evaluations evaluated_session = []"
  by (simp add: evaluated_session_def session_eval)

theorem C5_submission_rejected_witness:
  "taskFeedback (view evaluated_session) 3
     = Some \<lparr>text_f = ''Durys!'', loading = False, isCorrect = Some True\<rparr>
   \<and> topic_step space (sample_env, ClickCheckAnswer 3) evaluated_session = evaluated_session
   \<and> evaluations (topic_step space (sample_env, ClickCheckAnswer 3) evaluated_session) = []"
proof -
  have hyp: "(\<forall>c \<in> set (case userAnswers (view evaluated_session) 3 of
                          None \<Rightarrow> [] | Some a \<Rightarrow> a). space c)
         \<or> (\<exists>fb. taskFeedback (view evaluated_session) 3 = Some fb \<and> \<not> loading fb)
         \<or> (\<exists>fb. taskFeedback (view evaluated_session) 3 = Some fb \<and> loading fb)"
    using evaluated_session_feedback by simp
  have "topic_step space (sample_env, ClickCheckAnswer 3) evaluated_session = evaluated_session"
    using C5_submission_rejected [OF hyp] by (rule conjunct1)
  then show ?thesis using evaluated_session_feedback by simp
qed

section \<open>Practice generation\<close>

lemma handleGeneratePractice_loading:
  "isLoading_practice (view s) \<Longrightarrow> handleGeneratePractice s = s"
  by (simp add: handleGeneratePractice_def)

lemma handleGeneratePractice_cleared:
  "\<not> isLoading_practice (view s) \<Longrightarrow>
   practiceContent (view (handleGeneratePractice s)) = None \<and>
   userAnswers (view (handleGeneratePractice s)) = Map.empty \<and>
   taskFeedback (view (handleGeneratePractice s)) = Map.empty \<and>
   isLoading_practice (view (handleGeneratePractice s)) \<and>
   practice_fetches (handleGeneratePractice s) = practice_fetches s @ [user (app s)]"
  by (simp add: handleGeneratePractice_def)

lemmas level_eval =
  topic_step_def topic_dispatch_def initial_session_def mount_topic_def fetchLesson_started_def
  leave_topic_def earlier_settled_def handleLevelChange_def initial_view_def
  handleGeneratePractice_def generate_button_enabled_def mark_complete_def
  view_handleProgressUpdate_def handleProgressUpdate_def persistUserUpdate_def
  spread_progress_def progress_of_def userProgress_def empty_progress_def truthy_def
  sample_topic_def second_topic_def sample_env_def fresh_app_def fresh_user_def Let_def

text \<open>
  C8 fails on the code. \<^verbatim>\<open>handleGeneratePractice\<close> tests the flag
  \<^verbatim>\<open>isLoading.practice\<close>, not the fetch, and the flag is also cleared by the effect of
  the view (\<^verbatim>\<open>setIsLoading({ lesson: true, practice: false })\<close>), which runs again when
  the level changes under the view. In this run a practice fetch is outstanding and the
  flag is set; the lesson fetch of the first visit succeeds and its continuation stores
  the \<^verbatim>\<open>user\<close> of its closure, who is at level A1, with the lesson mark; the level the
  view gets goes from A2 back to A1, the effect runs again and clears the flag while the
  practice fetch is still outstanding; a click on the Generate button, which is enabled
  again, starts a second practice fetch: two are outstanding in one view.
\<close>

theorem C8_second_practice_fetch:
  "isLoading_practice
     (view (topic_run space practice_requested_events (initial_session sample_topic fresh_app)))
   \<and> length (practice_fetches
        (topic_run space practice_requested_events (initial_session sample_topic fresh_app))) = 1
   \<and> map_option level (user (app
        (topic_run space practice_requested_events (initial_session sample_topic fresh_app))))
       = Some A2
   \<and> map_option level (user (app
        (topic_step space (sample_env, EarlierSettled 0 True)
           (topic_run space practice_requested_events (initial_session sample_topic fresh_app)))))
       = Some A1
   \<and> \<not> isLoading_practice (view
        (topic_step space (sample_env, EarlierSettled 0 True)
           (topic_run space practice_requested_events (initial_session sample_topic fresh_app))))
   \<and> length (practice_fetches
        (topic_step space (sample_env, EarlierSettled 0 True)
           (topic_run space practice_requested_events (initial_session sample_topic fresh_app))))
       = 1
   \<and> length (practice_fetches
        (topic_step space (sample_env, ClickGeneratePractice)
           (topic_step space (sample_env, EarlierSettled 0 True)
              (topic_run space practice_requested_events
                 (initial_session sample_topic fresh_app))))) = 2"
  by (simp add: practice_requested_events_def level_eval)

section \<open>The exam view: what every state of a run keeps\<close>

lemma finishExam_fst:
  "fst (finishExam env c st) = (fst st)\<lparr>examFinished := True, examStarted := False\<rparr>"
  by (simp add: finishExam_def Let_def split: option.splits sum.splits)

lemma current_question_Some:
  "current_question v = Some q \<Longrightarrow>
   \<exists>qs. questions v = Some qs \<and> currentQuestionIndex v < length qs \<and> \<not> examFinished v \<and>
        examStarted v \<and> \<not> isLoading v"
  by (auto simp: current_question_def exam_screen_def split: option.splits if_splits)

lemma handle_shape:
  assumes v: "exam_shape v" and c: "exam_shape (fst c)"
    and q: "questions (fst c) \<noteq> None \<longrightarrow> questions v = questions (fst c)"
  shows "exam_shape (fst (exam_handle env ev c (v, ap))) \<and>
         questions (fst (exam_handle env ev c (v, ap))) = questions v"
proof (cases ev)
  case ClickStart
  with v q show ?thesis
    by (auto simp: exam_shape_def exam_screen_def split: option.splits)
next
  case (ClickOption opt)
  show ?thesis
  proof (cases "current_question (fst c)")
    case None
    with v ClickOption show ?thesis by simp
  next
    case (Some cq)
    from current_question_Some [OF Some] obtain qs where
      "questions (fst c) = Some qs" "currentQuestionIndex (fst c) < length qs"
      by blast
    with v c q ClickOption Some show ?thesis
      by (auto simp: exam_shape_def handleAnswerSelect_def length_array_set)
  qed
next
  case ClickNext
  with v show ?thesis
    by (auto simp: exam_shape_def handleNext_def split: option.splits)
next
  case ClickPrev
  with v show ?thesis
    by (auto simp: exam_shape_def handlePrev_def split: option.splits)
next
  case ClickFinish
  show ?thesis
  proof (cases "current_question (fst c)")
    case None
    with v ClickFinish show ?thesis by simp
  next
    case (Some cq)
    from current_question_Some [OF Some] obtain qs where "questions (fst c) = Some qs"
      by blast
    with v q ClickFinish show ?thesis
      by (auto simp: exam_shape_def finishExam_fst split: option.splits)
  qed
qed (use v in simp_all)

lemma timer_effect_sync: "exam_sync s \<Longrightarrow> exam_sync (timer_effect env s)"
  by (auto simp: exam_sync_def timer_effect_def Let_def finishExam_fst exam_shape_def
      split: option.splits)

lemma flush_effect_sync: "exam_sync s \<Longrightarrow> exam_sync (flush_effect env s)"
  by (simp add: flush_effect_def timer_effect_sync)

lemma commit_sync: "exam_sync s \<Longrightarrow> exam_sync (commit env s)"
  using flush_effect_sync [of s env]
  by (simp add: commit_def Let_def exam_sync_def)

lemma step_sync: "exam_sync s \<Longrightarrow> exam_sync (exam_step e s)"
proof -
  assume s: "exam_sync s"
  obtain v ap where l: "latest s = (v, ap)" by (cases "latest s")
  have click: "exam_sync (s\<lparr>latest := exam_handle (fst e) ev (rendered s) (latest s),
      render_due := b\<rparr>)" for ev b
    using s l handle_shape [of v "rendered s" "fst e" ev ap]
    by (simp add: exam_sync_def)
  have fetch: "exam_sync (s\<lparr>latest := (fetchExam_settled r (fst (latest s)), snd (latest s))\<rparr>)"
    if "isLoading (fst (latest s))" for r
    using s that
    by (auto simp: exam_sync_def exam_shape_def fetchExam_settled_def
        split: option.splits sum.splits)
  have tick: "exam_sync (s\<lparr>latest := ((fst (latest s))\<lparr>timeLeft := t\<rparr>, snd (latest s))\<rparr>)" for t
    using s by (auto simp: exam_sync_def exam_shape_def split: option.splits)
  have leave: "exam_sync ((flush_effect (fst e) s)\<lparr>unmounted := True, effect_pending := False,
      interval := False\<rparr>)"
    using flush_effect_sync [OF s, of "fst e"] by (simp add: exam_sync_def)
  show ?thesis
    using s click fetch tick leave commit_sync [OF s, of "fst e"] flush_effect_sync [OF s, of "fst e"]
    by (cases "snd e") (simp_all add: exam_step_def)
qed

lemma steps_sync: "exam_sync s \<Longrightarrow> exam_sync (exam_steps es s)"
  by (induction es arbitrary: s) (simp_all add: step_sync)

lemma mount_sync: "exam_sync (mount (initial_exam, a))"
  by (simp add: exam_sync_def mount_def exam_shape_def initial_exam_def)

section \<open>Finishing the exam\<close>

































text \<open>
  An exam without questions: the start screen is shown, and the render that follows the
  click on Start throws. The component is unmounted with nothing recorded.
\<close>

lemma empty_exam_unmounts:
  "unmounted (exam_steps
     [(sample_env, FetchSettled (Inr [])), (sample_env, Render), (sample_env, TimerEffect),
      (sample_env, ClickStart), (sample_env, Render)]
     (mount (initial_exam, sample_app)))
   \<and> snd (exam_run
     [(sample_env, FetchSettled (Inr [])), (sample_env, Render), (sample_env, TimerEffect),
      (sample_env, ClickStart), (sample_env, Render), (sample_env, TimerEffect),
      (sample_env, Tick), (sample_env, Render), (sample_env, ClickFinish)]
     (initial_exam, sample_app)) = sample_app"
  by (simp add: exam_run_def exam_step_def commit_def flush_effect_def timer_effect_def
      render_throws_def mount_def fetchExam_settled_def exam_screen_def truthy_def
      current_question_def initial_exam_def EXAM_DURATION_def Let_def)

section \<open>The exam score\<close>

text \<open>The answers keep one slot per question in every state of a run.\<close>

lemma reachable_score:
  "questions (fst (exam_run es (initial_exam, a))) = Some qs \<Longrightarrow>
   calculateScore (Some qs) (answers (fst (exam_run es (initial_exam, a))))
     = Inr (correct_count qs (answers (fst (exam_run es (initial_exam, a)))))"
proof -
  assume q: "questions (fst (exam_run es (initial_exam, a))) = Some qs"
  have "exam_sync (exam_steps es (mount (initial_exam, a)))"
    using mount_sync by (rule steps_sync)
  then have "exam_shape (fst (exam_run es (initial_exam, a)))"
    by (simp add: exam_sync_def exam_run_def)
  with q have "length (answers (fst (exam_run es (initial_exam, a)))) = length qs"
    by (simp add: exam_shape_def)
  then show ?thesis by (simp add: calculateScore_count)
qed

text \<open>
  C4. The score is a function of the questions and the answers array alone. For the
  answers array reached from the all-unanswered array by any sequence of selections at
  question indices, it is the number of indices whose stored answer is the correct
  answer of the question at that index; a slot that was never answered is not counted,
  and the array nobody answered scores 0. The same holds of the answers in every state
  the exam view reaches with questions loaded. Being a function, the score is the same
  each time it is computed on the same answers.
\<close>

theorem C4_score_is_count:
  assumes "\<forall>(i, opt) \<in> set sels. i < length qs"
  shows "calculateScore (Some qs) (select_answers sels (replicate (length qs) Null)) =
           Inr (correct_count qs (select_answers sels (replicate (length qs) Null)))
       \<and> length (select_answers sels (replicate (length qs) Null)) = length qs
       \<and> calculateScore (Some qs) (replicate (length qs) Null) = Inr 0
       \<and> (questions (fst (exam_run es (initial_exam, a))) = Some qs' \<longrightarrow>
            calculateScore (Some qs') (answers (fst (exam_run es (initial_exam, a))))
              = Inr (correct_count qs' (answers (fst (exam_run es (initial_exam, a))))))"
proof -
  have len: "length (select_answers sels (replicate (length qs) Null)) = length qs"
    using assms length_select_answers [of sels "replicate (length qs) Null"] by simp
  then have "calculateScore (Some qs) (select_answers sels (replicate (length qs) Null)) =
      Inr (correct_count qs (select_answers sels (replicate (length qs) Null)))"
    by (simp add: calculateScore_count)
  moreover have "calculateScore (Some qs) (replicate (length qs) Null) = Inr 0"
    by (simp add: calculateScore_count correct_count_unanswered)
  ultimately show ?thesis using len reachable_score [of es a qs'] by simp
qed

theorem C4_score_is_count_witness:
  "list_all (\<lambda>(i, opt). i < length [sample_question, sample_question, sample_question])
      [(0, ''are''), (1, ''is''), (0, ''is'')]
   \<and> select_answers [(0, ''are''), (1, ''is''), (0, ''is'')]
        (replicate (length [sample_question, sample_question, sample_question]) Null)
       = [Chosen ''is'', Chosen ''is'', Null]
   \<and> calculateScore (Some [sample_question, sample_question, sample_question])
        (select_answers [(0, ''are''), (1, ''is''), (0, ''is'')]
           (replicate (length [sample_question, sample_question, sample_question]) Null))
       = Inr 2"
proof -
  let ?qs = "[sample_question, sample_question, sample_question]"
  let ?sels = "[(0, ''are''), (1, ''is''), (0, ''is'')]"
  have hyp: "\<forall>(i, opt) \<in> set ?sels. i < length ?qs"
    by simp
  have sel: "select_answers ?sels (replicate (length ?qs) Null)
       = [Chosen ''is'', Chosen ''is'', Null]"
    by (simp add: array_set_def numeral_3_eq_3)
  have cnt: "correct_count ?qs [Chosen ''is'', Chosen ''is'', Null] = 2"
    by (simp add: correct_count_def sample_question_def upt_rec nth_Cons')
  have "calculateScore (Some ?qs) (select_answers ?sels (replicate (length ?qs) Null)) =
      Inr (correct_count ?qs (select_answers ?sels (replicate (length ?qs) Null)))"
    using C4_score_is_count [OF hyp] by (rule conjunct1)
  then have "calculateScore (Some ?qs) (select_answers ?sels (replicate (length ?qs) Null))
      = Inr 2"
    by (simp only: sel cnt)
  moreover have "list_all (\<lambda>(i, opt). i < length ?qs) ?sels"
    by simp
  ultimately show ?thesis using sel by blast
qed

section \<open>Progress updates after an await\<close>

lemmas topic_eval =
  topic_step_def topic_dispatch_def initial_session_def mount_topic_def fetchLesson_started_def
  leave_topic_def earlier_settled_def handleLevelChange_def
  initial_view_def fetchLesson_settled_def generatePractice_settled_def
  handleGeneratePractice_def generate_button_enabled_def vocabulary_on_screen_def
  mark_complete_def view_handleProgressUpdate_def handleProgressUpdate_def
  persistUserUpdate_def handleVocabToggle_def toggled_vocabulary_def spread_progress_def
  progress_of_def userProgress_def empty_progress_def current_progress_def truthy_def
  sample_topic_def sample_lesson_def sample_env_def fresh_app_def fresh_user_def Let_def

text \<open>
  C2 fails on the code. The continuation of \<^verbatim>\<open>handleGeneratePractice\<close> works with
  the \<^verbatim>\<open>progress\<close> and the \<^verbatim>\<open>onUpdateProgress\<close> of the render in which Generate
  was clicked. A word toggled while the fetch was outstanding is in the shell's progress
  before the fetch settles and is gone after it: the update is the old snapshot with
  the practice mark added. In the same way a practice fetch that was started while the
  lesson was loading removes the lesson mark when it settles after the lesson.
\<close>

theorem C2_lost_update:
  "completedVocabulary
     (current_progress (topic_run space toggle_during_practice
        (initial_session sample_topic fresh_app))) = [''teacher'']
   \<and> current_progress
       (topic_step space (sample_env, PracticeSettled (Inr sample_practice))
          (topic_run space toggle_during_practice (initial_session sample_topic fresh_app)))
     = \<lparr>completedVocabulary = [], completedSections = [Lesson, Practice]\<rparr>
   \<and> completedSections
       (current_progress (topic_run space practice_during_lesson
          (initial_session sample_topic fresh_app))) = [Lesson]
   \<and> current_progress
       (topic_step space (sample_env, PracticeSettled (Inr sample_practice))
          (topic_run space practice_during_lesson (initial_session sample_topic fresh_app)))
     = \<lparr>completedVocabulary = [], completedSections = [Practice]\<rparr>"
  by (simp add: toggle_during_practice_def practice_during_lesson_def topic_eval)

section \<open>The completion mark\<close>

lemma mark_complete_present:
  "s \<in> set (completedSections (progress_of (userProgress closure_user topicId))) \<Longrightarrow>
   mark_complete env s closure_user topicId a = a"
  by (simp add: mark_complete_def)

text \<open>
  C7 fails on the code. The test \<^verbatim>\<open>progress.completedSections.includes(s)\<close> reads the
  \<^verbatim>\<open>progress\<close> of the render the fetch started in, not the progress of the topic. In
  this run the topic's progress has the practice mark, set by the practice fetch of the
  first view, and the word \<open>teacher\<close>, marked after it. The practice fetch of the
  second view started before both; when it succeeds, its snapshot has no practice mark,
  and it stores the snapshot with the mark added: the section is not duplicated, but the
  completed vocabulary goes back to that of the snapshot and \<open>teacher\<close> is lost.
\<close>

theorem C7_stale_mark:
  "current_progress (topic_run space marked_again_events (initial_session sample_topic sample_app))
     = \<lparr>completedVocabulary = [''hello'', ''teacher''], completedSections = [Lesson, Practice]\<rparr>
   \<and> current_progress
       (topic_step space (sample_env, PracticeSettled (Inr sample_practice))
          (topic_run space marked_again_events (initial_session sample_topic sample_app)))
     = \<lparr>completedVocabulary = [''hello''], completedSections = [Lesson, Practice]\<rparr>"
  by (simp add: marked_again_events_def topic_eval sample_app_def sample_user_def)

end
